theory Spec2Isabelle
  imports Main "HOL-Library.Multiset" "HOL-Library.Word"
begin

section \<open>Domain maps (main.go, lines 22--31)\<close>

text \<open>
  The two domain maps of the fetcher are Go maps keyed by strings.  The numeric payload is a
  Go \<^verbatim>\<open>float64\<close> that the program only copies (it is never compared or computed
  with), so the model is polymorphic in the type \<open>'f\<close> of sample values: every theorem
  holds for any representation of \<^verbatim>\<open>float64\<close>, NaN and the infinities included.
\<close>

record 'f brokerStorageFreeValue =
  StorageFree :: 'f

type_synonym 'f brokerStorageFree = "string \<rightharpoonup> 'f brokerStorageFreeValue"

record 'f partitionSizeValue =
  Size :: 'f

type_synonym 'f partitionSize = "string \<rightharpoonup> 'f partitionSizeValue"

type_synonym 'f topicPartitionSize = "string \<rightharpoonup> 'f partitionSize"

section \<open>Query results of the monitoring client\<close>

text \<open>
  \<^verbatim>\<open>model.Value\<close> of the Prometheus client library is an interface with four
  implementations; \<^verbatim>\<open>Type()\<close> tells them apart.  A \<^verbatim>\<open>model.Metric\<close> is a
  Go map from label names to label values: reading a label that is absent yields the zero
  value of the value type, the empty string.
\<close>

type_synonym Metric = "string \<rightharpoonup> string"

record 'f Sample =
  Metric :: Metric
  Value :: 'f
  Timestamp :: int

datatype ValueType = ValNone | ValScalar | ValVector | ValMatrix | ValString

datatype 'f model_Value =
    Scalar 'f int
  | Vector "'f Sample list"
  | Matrix "(Metric \<times> ('f \<times> int) list) list"
  | String string int

fun Type :: "'f model_Value \<Rightarrow> ValueType" where
  "Type (Scalar v t) = ValScalar"
| "Type (Vector ss) = ValVector"
| "Type (Matrix ms) = ValMatrix"
| "Type (String s t) = ValString"

definition label_value :: "Metric \<Rightarrow> string \<Rightarrow> string" where
  \<comment> \<open>\<^verbatim>\<open>string(elem.Metric[name])\<close>: a missing key reads as the empty string.\<close>
  "label_value m name = (case m name of None \<Rightarrow> [] | Some v \<Rightarrow> v)"

section \<open>Process-level failures\<close>

text \<open>
  \<^verbatim>\<open>promQuery\<close> returns the client's result or its error; the two getters end the
  process on an error (\<^verbatim>\<open>log.Fatalf\<close>, and \<^verbatim>\<open>log.Errorf\<close> followed by
  \<^verbatim>\<open>os.Exit(1)\<close>).  A type assertion on the wrong dynamic type would panic.
\<close>

datatype failure =
    BrokerStorageQueryError string
  | PartitionSizeQueryError string
  | TypeAssertionPanic

section \<open>The two mappers (main.go, lines 86--133)\<close>

definition brokerStep :: "string \<Rightarrow> 'f Sample \<Rightarrow> 'f brokerStorageFree \<Rightarrow> 'f brokerStorageFree" where
  \<comment> \<open>body of the loop at lines 97--100\<close>
  "brokerStep flBrokerIDLabel elem m =
     (let bid = label_value (Metric elem) flBrokerIDLabel
      in m(bid \<mapsto> \<lparr>StorageFree = Value elem\<rparr>))"

definition getBrokerFreeSpace ::
  "string \<Rightarrow> string + 'f model_Value \<Rightarrow> failure + 'f brokerStorageFree" where
  "getBrokerFreeSpace flBrokerIDLabel queried =
     (case queried of
        Inl err \<Rightarrow> Inl (BrokerStorageQueryError err)
      | Inr result \<Rightarrow>
          if Type result = ValVector then
            (case result of
               Vector vectorVal \<Rightarrow> Inr (fold (brokerStep flBrokerIDLabel) vectorVal Map.empty)
             | _ \<Rightarrow> Inl TypeAssertionPanic)
          else Inr Map.empty)"

definition partitionStep :: "'f Sample \<Rightarrow> 'f topicPartitionSize \<Rightarrow> 'f topicPartitionSize" where
  \<comment> \<open>body of the loop at lines 118--129\<close>
  "partitionStep elem m =
     (let topic = label_value (Metric elem) ''topic'';
          partition = label_value (Metric elem) ''partition'';
          v = (case m topic of None \<Rightarrow> Map.empty | Some v \<Rightarrow> v)
      in m(topic \<mapsto> v(partition \<mapsto> \<lparr>Size = Value elem\<rparr>)))"

definition getPartitionSizes :: "string + 'f model_Value \<Rightarrow> failure + 'f topicPartitionSize" where
  "getPartitionSizes queried =
     (case queried of
        Inl err \<Rightarrow> Inl (PartitionSizeQueryError err)
      | Inr result \<Rightarrow>
          if Type result = ValVector then
            (case result of
               Vector vectorVal \<Rightarrow> Inr (fold partitionStep vectorVal Map.empty)
             | _ \<Rightarrow> Inl TypeAssertionPanic)
          else Inr Map.empty)"

definition lookup2 :: "'f topicPartitionSize \<Rightarrow> string \<Rightarrow> string \<Rightarrow> 'f partitionSizeValue option" where
  \<comment> \<open>the entry of a two-level map at (topic, partition), if there is one\<close>
  "lookup2 m t p = (case m t of None \<Rightarrow> None | Some v \<Rightarrow> v p)"

definition sample_pair :: "'f Sample \<Rightarrow> string \<times> string" where
  \<comment> \<open>the (topic, partition) key under which the loop of getPartitionSizes files a sample\<close>
  "sample_pair elem = (label_value (Metric elem) ''topic'', label_value (Metric elem) ''partition'')"

section \<open>The coordination store behind \<^verbatim>\<open>zk.Conn\<close>\<close>

text \<open>
  The ZooKeeper client is a library: the program sees it through \<^verbatim>\<open>Delete\<close>,
  \<^verbatim>\<open>GetACL\<close>, \<^verbatim>\<open>Create\<close> and \<^verbatim>\<open>Close\<close>.  The model keeps the
  nodes of the store, a journal of the calls the program has made, and a script of
  \<open>faults\<close>: each request consumes the head of the script, and a head \<open>Some e\<close> makes the
  request fail with \<open>e\<close> and leave the nodes as they are.  The script stands for everything
  the store may answer beyond what its nodes dictate (a lost session, a refused permission,
  a node with children, a missing parent, the trace of a concurrent client); with an empty
  script the store answers from its nodes alone.
\<close>

record ACL =
  Perms :: "32 word"
  Scheme :: string
  ID :: string

definition PermAll :: "32 word" where
  "PermAll = 0x1f"

definition WorldACL :: "32 word \<Rightarrow> ACL list" where
  "WorldACL perms = [\<lparr>Perms = perms, Scheme = ''world'', ID = ''anyone''\<rparr>]"

record znode =
  data :: string
  acl :: "ACL list"
  version :: "32 word"

datatype zk_error =
    ErrNoNode | ErrNodeExists | ErrBadVersion | ErrNotEmpty | ErrNoAuth
  | ErrInvalidACL | ErrConnectionClosed | ErrSessionExpired

datatype zk_call =
    DeleteCall string "32 word"
  | GetACLCall string
  | CreateCall string string "32 word" "ACL list"
  | CloseCall

fun call_path :: "zk_call \<Rightarrow> string option" where
  "call_path (DeleteCall p v) = Some p"
| "call_path (GetACLCall p) = Some p"
| "call_path (CreateCall p d f a) = Some p"
| "call_path CloseCall = None"

datatype log_line =
    Println string
  | LogTopic string
  | LogPartition int string
  | LogBroker string string string
  | LogWriting string

record world =
  nodes :: "string \<rightharpoonup> znode"
  faults :: "zk_error option list"
  journal :: "zk_call list"
  log :: "log_line list"

definition request :: "world \<Rightarrow> zk_call \<Rightarrow> zk_error option \<times> world" where
  \<comment> \<open>journal the call and take the next entry of the fault script\<close>
  "request w call =
     (let w1 = w\<lparr>journal := journal w @ [call]\<rparr>
      in case faults w1 of
           [] \<Rightarrow> (None, w1)
         | f # fs \<Rightarrow> (f, w1\<lparr>faults := fs\<rparr>))"

definition zk_Delete :: "world \<Rightarrow> string \<Rightarrow> 32 word \<Rightarrow> zk_error option \<times> world" where
  "zk_Delete w path ver =
     (case request w (DeleteCall path ver) of
        (Some e, w1) \<Rightarrow> (Some e, w1)
      | (None, w1) \<Rightarrow>
          (case nodes w1 path of
             None \<Rightarrow> (Some ErrNoNode, w1)
           | Some n \<Rightarrow>
               if ver \<noteq> - 1 \<and> version n \<noteq> ver then (Some ErrBadVersion, w1)
               else (None, w1\<lparr>nodes := (nodes w1)(path := None)\<rparr>)))"

definition zk_GetACL :: "world \<Rightarrow> string \<Rightarrow> (zk_error + ACL list) \<times> world" where
  "zk_GetACL w path =
     (case request w (GetACLCall path) of
        (Some e, w1) \<Rightarrow> (Inl e, w1)
      | (None, w1) \<Rightarrow>
          (case nodes w1 path of
             None \<Rightarrow> (Inl ErrNoNode, w1)
           | Some n \<Rightarrow> (Inr (acl n), w1)))"

definition zk_Create ::
  "world \<Rightarrow> string \<Rightarrow> string \<Rightarrow> 32 word \<Rightarrow> ACL list \<Rightarrow> zk_error option \<times> world" where
  "zk_Create w path payload flags acls =
     (case request w (CreateCall path payload flags acls) of
        (Some e, w1) \<Rightarrow> (Some e, w1)
      | (None, w1) \<Rightarrow>
          (case nodes w1 path of
             Some n \<Rightarrow> (Some ErrNodeExists, w1)
           | None \<Rightarrow>
               (None, w1\<lparr>nodes := (nodes w1)(path \<mapsto> \<lparr>data = payload, acl = acls, version = 0\<rparr>)\<rparr>)))"

definition zk_Close :: "world \<Rightarrow> world" where
  "zk_Close w = w\<lparr>journal := journal w @ [CloseCall]\<rparr>"

section \<open>Writing one node (main.go, lines 200--255)\<close>

datatype error =
    MarshalError string
  | UnableToDeletePath string zk_error
  | UnableToCreateNode string zk_error
  | UnableToGetNodeACL string zk_error
  | WrongACL string "ACL list"
  | UnableToCreatePath string zk_error

definition root :: string where
  "root = ''/topicmappr''"

definition zk_dir :: "string \<Rightarrow> string" where
  \<comment> \<open>lines 205--210\<close>
  "zk_dir zkChroot = (if zkChroot \<noteq> [] then zkChroot @ root else root)"

definition zk_path :: "string \<Rightarrow> string \<Rightarrow> string" where
  \<comment> \<open>line 212\<close>
  "zk_path zkChroot name = zk_dir zkChroot @ ''/'' @ name"

definition wacl :: ACL where
  \<comment> \<open>line 234: the first (and only) entry of \<^verbatim>\<open>zk.WorldACL(zk.PermAll)\<close>\<close>
  "wacl = WorldACL PermAll ! 0"

fun waclExists :: "ACL list \<Rightarrow> bool" where
  \<comment> \<open>the loop at lines 235--240\<close>
  "waclExists [] = False"
| "waclExists (a # as) = (if a = wacl then True else waclExists as)"

definition ensureDirectory :: "world \<Rightarrow> string \<Rightarrow> error option \<times> world" where
  \<comment> \<open>lines 220--244\<close>
  "ensureDirectory w dir =
     (case zk_GetACL w dir of
        (Inl err, w1) \<Rightarrow>
          if err = ErrNoNode then
            (case zk_Create w1 dir [] 0 (WorldACL PermAll) of
               (cerr, w2) \<Rightarrow>
                 if cerr \<noteq> None \<and> cerr \<noteq> Some ErrNodeExists
                 then (map_option (UnableToCreateNode dir) cerr, w2)
                 else (None, w2))
          else (Some (UnableToGetNodeACL dir err), w1)
      | (Inr acls, w1) \<Rightarrow>
          if \<not> waclExists acls then (Some (WrongACL dir acls), w1) else (None, w1))"

definition createDataNode :: "world \<Rightarrow> string \<Rightarrow> string \<Rightarrow> error option \<times> world" where
  \<comment> \<open>lines 246--254\<close>
  "createDataNode w path payload =
     (case zk_Create (w\<lparr>log := log w @ [LogWriting path]\<rparr>) path payload 0 (WorldACL PermAll) of
        (cerr, w1) \<Rightarrow> (map_option (UnableToCreatePath path) cerr, w1))"

definition writeToZookeeper :: "string \<Rightarrow> world \<Rightarrow> string \<Rightarrow> string \<Rightarrow> error option \<times> world" where
  "writeToZookeeper zkChroot w name payload =
     (let dir = zk_dir zkChroot;
          path = zk_path zkChroot name
      in case zk_Delete w path 0 of
           (derr, w1) \<Rightarrow>
             if derr \<noteq> None \<and> derr \<noteq> Some ErrNoNode
             then (map_option (UnableToDeletePath path) derr, w1)
             else (case ensureDirectory w1 dir of
                     (Some err, w2) \<Rightarrow> (Some err, w2)
                   | (None, w2) \<Rightarrow> createDataNode w2 path payload))"

section \<open>Publishing (main.go, lines 135--198)\<close>

text \<open>
  What \<^verbatim>\<open>processData\<close> takes from libraries and from the Go runtime is a parameter
  of the model: the JSON encoder (which may fail), \<^verbatim>\<open>strconv.Atoi\<close> (its error is
  discarded by the program), the conversion of a \<^verbatim>\<open>float64\<close> to \<^verbatim>\<open>uint64\<close>,
  \<^verbatim>\<open>humanize.Bytes\<close>, \<^verbatim>\<open>sort.Slice\<close> (not a stable sort), and the order in
  which \<^verbatim>\<open>range\<close> visits the entries of each map (unspecified in Go).
\<close>

record el =
  Partition :: int
  Size :: "64 word"

record 'f env =
  json_Marshal_partitions :: "'f topicPartitionSize \<Rightarrow> string + string"
  json_Marshal_brokers :: "'f brokerStorageFree \<Rightarrow> string + string"
  strconv_Atoi :: "string \<Rightarrow> int"
  to_uint64 :: "'f \<Rightarrow> 64 word"
  humanize_Bytes :: "64 word \<Rightarrow> string"
  sort_Slice :: "(el \<Rightarrow> el \<Rightarrow> bool) \<Rightarrow> el list \<Rightarrow> el list"
  range_topics :: "'f topicPartitionSize \<Rightarrow> (string \<times> 'f partitionSize) list"
  range_partitions :: "'f partitionSize \<Rightarrow> (string \<times> 'f partitionSizeValue) list"
  range_brokers :: "'f brokerStorageFree \<Rightarrow> (string \<times> 'f brokerStorageFreeValue) list"

definition less_Partition :: "el \<Rightarrow> el \<Rightarrow> bool" where
  \<comment> \<open>the comparison handed to \<^verbatim>\<open>sort.Slice\<close> at lines 172--174\<close>
  "less_Partition a b = (Partition a < Partition b)"

definition dry_run_entries :: "'f env \<Rightarrow> 'f partitionSize \<Rightarrow> el list" where
  \<comment> \<open>lines 161--174: collect the entries of one topic, then sort them\<close>
  "dry_run_entries env m =
     sort_Slice env less_Partition
       (map (\<lambda>(partition, obj).
               \<lparr>Partition = strconv_Atoi env partition,
                Size = to_uint64 env (partitionSizeValue.Size obj)\<rparr>)
            (range_partitions env m))"

definition dry_run_topic :: "'f env \<Rightarrow> string \<times> 'f partitionSize \<Rightarrow> log_line list" where
  \<comment> \<open>lines 154--178: the lines printed for one topic\<close>
  "dry_run_topic env tm =
     LogTopic (fst tm) #
     map (\<lambda>entry. LogPartition (Partition entry) (humanize_Bytes env (Size entry)))
         (dry_run_entries env (snd tm))"

definition dry_run_log ::
  "'f env \<Rightarrow> 'f brokerStorageFree \<Rightarrow> 'f topicPartitionSize \<Rightarrow> log_line list" where
  \<comment> \<open>lines 151--185\<close>
  "dry_run_log env brokerMetrics partitionMapping =
     Println ''partition mapping'' #
     concat (map (dry_run_topic env) (range_topics env partitionMapping)) @
     Println ''fetched metrics'' #
     map (\<lambda>(brokerID, obj).
            LogBroker brokerID ''storage free'' (humanize_Bytes env (to_uint64 env (StorageFree obj))))
         (range_brokers env brokerMetrics)"

definition processData ::
  "'f env \<Rightarrow> bool \<Rightarrow> string \<Rightarrow> world \<Rightarrow> 'f brokerStorageFree \<Rightarrow> 'f topicPartitionSize
     \<Rightarrow> error option \<times> world" where
  \<comment> \<open>the deferred \<^verbatim>\<open>zkConn.Close()\<close> runs on every return\<close>
  "processData env flDryRun zkChroot w brokerMetrics partitionMapping =
     (case json_Marshal_partitions env partitionMapping of
        Inl err \<Rightarrow> (Some (MarshalError err), zk_Close w)
      | Inr topicPartitionSizeData \<Rightarrow>
          (case json_Marshal_brokers env brokerMetrics of
             Inl err \<Rightarrow> (Some (MarshalError err), zk_Close w)
           | Inr brokerMetricsData \<Rightarrow>
               if flDryRun then
                 (None, zk_Close (w\<lparr>log := log w @ dry_run_log env brokerMetrics partitionMapping\<rparr>))
               else
                 (case writeToZookeeper zkChroot w ''partitionmeta'' topicPartitionSizeData of
                    (Some err, w1) \<Rightarrow> (Some err, zk_Close w1)
                  | (None, w1) \<Rightarrow>
                      (case writeToZookeeper zkChroot w1 ''brokermetrics'' brokerMetricsData of
                         (Some err, w2) \<Rightarrow> (Some err, zk_Close w2)
                       | (None, w2) \<Rightarrow> (None, zk_Close w2)))))"

section \<open>The store address (main.go, lines 277--283)\<close>

fun IndexByte :: "string \<Rightarrow> char \<Rightarrow> int" where
  \<comment> \<open>\<^verbatim>\<open>strings.IndexByte\<close>: the index of the first occurrence, or -1\<close>
  "IndexByte [] c = - 1"
| "IndexByte (x # xs) c =
     (if x = c then 0 else (let i = IndexByte xs c in if i < 0 then - 1 else i + 1))"

definition split_zk_addr :: "string \<Rightarrow> string \<times> string" where
  \<comment> \<open>yields \<^verbatim>\<open>(zkAddr, zkChroot)\<close>; the global \<^verbatim>\<open>zkChroot\<close> starts out empty\<close>
  "split_zk_addr flZkAddr =
     (let pos = IndexByte flZkAddr (CHR ''/'')
      in if pos \<ge> 0 then (take (nat pos) flZkAddr, drop (nat pos) flZkAddr)
         else (flZkAddr, []))"

section \<open>Contracts of the runtime and concrete runs\<close>

text \<open>
  What the dry run may assume of the Go runtime: \<^verbatim>\<open>range\<close> visits every entry of a
  map exactly once, in some order, and \<^verbatim>\<open>sort.Slice\<close> returns a permutation of the
  slice in which no element is followed by one that is less than it.
\<close>

definition range_ok :: "('k \<rightharpoonup> 'v) \<Rightarrow> ('k \<times> 'v) list \<Rightarrow> bool" where
  "range_ok m kvs = (distinct (map fst kvs) \<and> map_of kvs = m)"

definition sort_ok :: "((el \<Rightarrow> el \<Rightarrow> bool) \<Rightarrow> el list \<Rightarrow> el list) \<Rightarrow> bool" where
  "sort_ok srt =
     (\<forall>xs. mset (srt less_Partition xs) = mset xs \<and>
           sorted_wrt (\<lambda>a b. \<not> less_Partition b a) (srt less_Partition xs))"

definition dry_run_contract :: "'f env \<Rightarrow> 'f topicPartitionSize \<Rightarrow> bool" where
  "dry_run_contract env partitionMapping =
     (sort_ok (sort_Slice env) \<and>
      range_ok partitionMapping (range_topics env partitionMapping) \<and>
      (\<forall>tm\<in>set (range_topics env partitionMapping). range_ok (snd tm) (range_partitions env (snd tm))))"

definition printed_partitions :: "log_line list \<Rightarrow> int list" where
  \<comment> \<open>the partition numbers of the partition lines of a report, in the order printed\<close>
  "printed_partitions ls =
     concat (map (\<lambda>l. case l of LogPartition p s \<Rightarrow> [p] | _ \<Rightarrow> []) ls)"

text \<open>
  A store whose directory carries an ACL that lets anyone create, delete, read and write
  but not administer, so the open ACL is not among its entries; both data nodes exist.
\<close>

definition restricted_store :: world where
  "restricted_store =
     \<lparr>nodes = [''/topicmappr'' \<mapsto>
                 \<lparr>data = [], acl = [\<lparr>Perms = 0xf, Scheme = ''world'', ID = ''anyone''\<rparr>], version = 0\<rparr>,
               ''/topicmappr/partitionmeta'' \<mapsto>
                 \<lparr>data = ''old partitions'', acl = WorldACL PermAll, version = 0\<rparr>,
               ''/topicmappr/brokermetrics'' \<mapsto>
                 \<lparr>data = ''old brokers'', acl = WorldACL PermAll, version = 0\<rparr>],
      faults = [], journal = [], log = []\<rparr>"

text \<open>
  A store like the previous one whose \<open>partitionmeta\<close> node has been rewritten three
  times, so that a delete that expects version 0 is refused; and an empty store reached
  through a session that has been closed, so that the first request fails.
\<close>

definition stale_store :: world where
  "stale_store =
     \<lparr>nodes = [''/topicmappr'' \<mapsto>
                 \<lparr>data = [], acl = [\<lparr>Perms = 0xf, Scheme = ''world'', ID = ''anyone''\<rparr>], version = 0\<rparr>,
               ''/topicmappr/partitionmeta'' \<mapsto>
                 \<lparr>data = ''old partitions'', acl = WorldACL PermAll, version = 3\<rparr>],
      faults = [], journal = [], log = []\<rparr>"

definition closed_session_store :: world where
  "closed_session_store =
     \<lparr>nodes = Map.empty, faults = [Some ErrConnectionClosed], journal = [], log = []\<rparr>"

text \<open>
  A store whose directory appears between the ACL query and the creation of the directory:
  the second request is answered \<open>ErrNoNode\<close> although the directory is there by the time
  the program tries to create it.
\<close>

definition racing_store :: world where
  "racing_store =
     \<lparr>nodes = [''/topicmappr'' \<mapsto> \<lparr>data = [], acl = WorldACL PermAll, version = 0\<rparr>],
      faults = [None, Some ErrNoNode], journal = [], log = []\<rparr>"

text \<open>
  An environment for concrete runs: the encoders and the formatter return fixed text,
  \<open>example_Atoi\<close> reads a string of decimal digits (0 for anything else, as the program
  discards the error), and the sort is the library's insertion sort on the partition number.
\<close>

definition digit_of :: "char \<Rightarrow> int option" where
  "digit_of c = map_of (zip ''0123456789'' [0, 1, 2, 3, 4, 5, 6, 7, 8, 9]) c"

fun digits_value :: "string \<Rightarrow> int \<Rightarrow> int option" where
  "digits_value [] n = Some n"
| "digits_value (c # cs) n =
     (case digit_of c of None \<Rightarrow> None | Some d \<Rightarrow> digits_value cs (10 * n + d))"

definition example_Atoi :: "string \<Rightarrow> int" where
  "example_Atoi s =
     (if s = [] then 0 else case digits_value s 0 of None \<Rightarrow> 0 | Some n \<Rightarrow> n)"

definition example_partitions :: "int partitionSize" where
  "example_partitions =
     [''1'' \<mapsto> \<lparr>partitionSizeValue.Size = 100\<rparr>, ''2'' \<mapsto> \<lparr>partitionSizeValue.Size = 200\<rparr>,
      ''10'' \<mapsto> \<lparr>partitionSizeValue.Size = 300\<rparr>]"

definition example_env :: "int env" where
  "example_env =
     \<lparr>json_Marshal_partitions = (\<lambda>m. Inr ''new partitions''),
      json_Marshal_brokers = (\<lambda>m. Inr ''new brokers''),
      strconv_Atoi = example_Atoi,
      to_uint64 = word_of_int,
      humanize_Bytes = (\<lambda>n. ''some bytes''),
      sort_Slice = (\<lambda>less. sort_key Partition),
      range_topics = (\<lambda>m. [(''t1'', example_partitions)]),
      range_partitions = (\<lambda>m. [(''10'', \<lparr>partitionSizeValue.Size = 300\<rparr>),
                               (''2'', \<lparr>partitionSizeValue.Size = 200\<rparr>),
                               (''1'', \<lparr>partitionSizeValue.Size = 100\<rparr>)]),
      range_brokers = (\<lambda>m. [])\<rparr>"

section \<open>Properties of the mappers\<close>

lemma last_wins:
  "map_of (rev (map (\<lambda>s. (k s, v s)) ss)) x =
     (if \<exists>s\<in>set ss. k s = x then Some (v (last (filter (\<lambda>s. k s = x) ss))) else None)"
  by (induction ss rule: rev_induct) auto

lemma brokerStep_lookup:
  "brokerStep l e m x =
     (if label_value (Metric e) l = x then Some \<lparr>StorageFree = Value e\<rparr> else m x)"
  by (simp add: brokerStep_def)

lemma fold_brokerStep:
  "fold (brokerStep l) ss m0 x =
     (case map_of (rev (map (\<lambda>s. (label_value (Metric s) l, \<lparr>StorageFree = Value s\<rparr>)) ss)) x of
        None \<Rightarrow> m0 x
      | Some v \<Rightarrow> Some v)"
  by (induction ss rule: rev_induct) (simp_all add: brokerStep_lookup)

lemma fold_brokerStep_lookup:
  "fold (brokerStep l) ss Map.empty x =
     (if \<exists>s\<in>set ss. label_value (Metric s) l = x
      then Some \<lparr>StorageFree = Value (last (filter (\<lambda>s. label_value (Metric s) l = x) ss))\<rparr>
      else None)"
  unfolding fold_brokerStep
  using last_wins [of "\<lambda>s. label_value (Metric s) l" "\<lambda>s. \<lparr>StorageFree = Value s\<rparr>" ss x]
  by (simp split: option.splits)

lemma lookup2_partitionStep:
  "lookup2 (partitionStep e m) t p =
     (if sample_pair e = (t, p) then Some \<lparr>partitionSizeValue.Size = Value e\<rparr> else lookup2 m t p)"
  by (auto simp: lookup2_def partitionStep_def sample_pair_def Let_def split: option.splits)

lemma lookup2_fold_partitionStep:
  "lookup2 (fold partitionStep ss m0) t p =
     (case map_of (rev (map (\<lambda>s. (sample_pair s, \<lparr>partitionSizeValue.Size = Value s\<rparr>)) ss)) (t, p) of
        None \<Rightarrow> lookup2 m0 t p
      | Some v \<Rightarrow> Some v)"
  by (induction ss rule: rev_induct) (simp_all add: lookup2_partitionStep)

lemma lookup2_empty: "lookup2 Map.empty t p = None"
  by (simp add: lookup2_def)

lemma lookup2_fold_partitionStep_empty:
  "lookup2 (fold partitionStep ss Map.empty) t p =
     (if \<exists>s\<in>set ss. sample_pair s = (t, p)
      then Some \<lparr>partitionSizeValue.Size = Value (last (filter (\<lambda>s. sample_pair s = (t, p)) ss))\<rparr>
      else None)"
  unfolding lookup2_fold_partitionStep lookup2_empty
  using last_wins [of sample_pair "\<lambda>s. \<lparr>partitionSizeValue.Size = Value s\<rparr>" ss "(t, p)"]
  by (simp split: option.splits)

lemma dom_partitionStep:
  "dom (partitionStep e m) = insert (label_value (Metric e) ''topic'') (dom m)"
  by (simp add: partitionStep_def Let_def)

lemma dom_fold_partitionStep:
  "dom (fold partitionStep ss m0) = dom m0 \<union> (\<lambda>s. label_value (Metric s) ''topic'') ` set ss"
  by (induction ss rule: rev_induct) (auto simp: dom_partitionStep)

section \<open>Properties of the store operations and of the address split\<close>

lemma wacl_eq: "wacl = \<lparr>Perms = 0x1f, Scheme = ''world'', ID = ''anyone''\<rparr>"
  by (simp add: wacl_def WorldACL_def PermAll_def)

lemma waclExists_iff: "waclExists acls \<longleftrightarrow> wacl \<in> set acls"
  by (induction acls) auto

lemma IndexByte_eq:
  "IndexByte s c = (if c \<in> set s then int (length (takeWhile (\<lambda>x. x \<noteq> c) s)) else - 1)"
  by (induction s) (auto simp: Let_def)

lemma split_zk_addr_eq:
  "split_zk_addr a = (takeWhile (\<lambda>x. x \<noteq> CHR ''/'') a, dropWhile (\<lambda>x. x \<noteq> CHR ''/'') a)"
proof (cases "CHR ''/'' \<in> set a")
  case True
  then show ?thesis
    by (simp add: split_zk_addr_def IndexByte_eq Let_def takeWhile_eq_take [symmetric]
        dropWhile_eq_drop [symmetric])
next
  case False
  then have tw: "takeWhile (\<lambda>x. x \<noteq> CHR ''/'') a = a"
    and dw: "dropWhile (\<lambda>x. x \<noteq> CHR ''/'') a = []"
    by auto
  show ?thesis
    unfolding tw dw using False by (simp add: split_zk_addr_def IndexByte_eq Let_def)
qed

lemma request_props:
  assumes "request w call = (f, w1)"
  shows "journal w1 = journal w @ [call] \<and> nodes w1 = nodes w \<and> log w1 = log w
       \<and> faults w1 = tl (faults w) \<and> f = (case faults w of [] \<Rightarrow> None | x # _ \<Rightarrow> x)"
  using assms by (auto simp: request_def Let_def split: list.splits)

lemma zk_Delete_props:
  assumes "zk_Delete w p v = (e, w1)"
  shows "journal w1 = journal w @ [DeleteCall p v] \<and> log w1 = log w
       \<and> faults w1 = tl (faults w)
       \<and> nodes w1 = (if e = None then (nodes w)(p := None) else nodes w)"
  using assms
  by (auto simp: zk_Delete_def split: prod.splits option.splits if_splits dest!: request_props)

lemma zk_GetACL_props:
  assumes "zk_GetACL w p = (r, w1)"
  shows "journal w1 = journal w @ [GetACLCall p] \<and> log w1 = log w
       \<and> faults w1 = tl (faults w) \<and> nodes w1 = nodes w"
  using assms
  by (auto simp: zk_GetACL_def split: prod.splits option.splits if_splits dest!: request_props)

lemma zk_Create_props:
  assumes "zk_Create w p d f a = (e, w1)"
  shows "journal w1 = journal w @ [CreateCall p d f a] \<and> log w1 = log w
       \<and> faults w1 = tl (faults w)
       \<and> nodes w1 = (if e = None then (nodes w)(p \<mapsto> \<lparr>data = d, acl = a, version = 0\<rparr>) else nodes w)
       \<and> (e = None \<longrightarrow> nodes w p = None)"
  using assms
  by (auto simp: zk_Create_def split: prod.splits option.splits if_splits dest!: request_props)

lemma ensureDirectory_props:
  assumes "ensureDirectory w dir = (e, w1)"
  shows "(\<exists>cs. journal w1 = journal w @ GetACLCall dir # cs
            \<and> set cs \<subseteq> {CreateCall dir [] 0 (WorldACL PermAll)})
    \<and> log w1 = log w
    \<and> (nodes w1 = nodes w \<or>
         (nodes w dir = None \<and>
          nodes w1 = (nodes w)(dir \<mapsto> \<lparr>data = [], acl = WorldACL PermAll, version = 0\<rparr>)))"
  using assms
  by (auto simp: ensureDirectory_def split: prod.splits sum.splits if_splits
      dest!: zk_GetACL_props zk_Create_props)

lemma createDataNode_props:
  assumes "createDataNode w path d = (e, w1)"
  shows "journal w1 = journal w @ [CreateCall path d 0 (WorldACL PermAll)]
    \<and> log w1 = log w @ [LogWriting path]
    \<and> nodes w1 = (if e = None
           then (nodes w)(path \<mapsto> \<lparr>data = d, acl = WorldACL PermAll, version = 0\<rparr>)
           else nodes w)
    \<and> (e = None \<longrightarrow> nodes w path = None)"
  using assms
  by (auto simp: createDataNode_def split: prod.splits dest!: zk_Create_props)


lemma zk_path_neq_dir: "zk_path chroot name \<noteq> zk_dir chroot"
  by (simp add: zk_path_def)

lemma zk_path_inj: "zk_path chroot a = zk_path chroot b \<longleftrightarrow> a = b"
  by (simp add: zk_path_def)

lemma writeToZookeeper_props:
  assumes "writeToZookeeper chroot w name d = (e, w1)"
  shows "(\<exists>cs. journal w1 = journal w @ DeleteCall (zk_path chroot name) 0 # cs
            \<and> set cs \<subseteq> {GetACLCall (zk_dir chroot),
                         CreateCall (zk_dir chroot) [] 0 (WorldACL PermAll),
                         CreateCall (zk_path chroot name) d 0 (WorldACL PermAll)}
            \<and> (e = None \<longrightarrow> CreateCall (zk_path chroot name) d 0 (WorldACL PermAll) \<in> set cs))
    \<and> (\<forall>p. p \<noteq> zk_dir chroot \<and> p \<noteq> zk_path chroot name \<longrightarrow> nodes w1 p = nodes w p)
    \<and> (nodes w1 (zk_dir chroot) = nodes w (zk_dir chroot) \<or>
         (nodes w (zk_dir chroot) = None \<and>
          nodes w1 (zk_dir chroot) = Some \<lparr>data = [], acl = WorldACL PermAll, version = 0\<rparr>))
    \<and> (e = None \<longrightarrow>
          nodes w1 (zk_path chroot name) = Some \<lparr>data = d, acl = WorldACL PermAll, version = 0\<rparr>)"
proof -
  obtain derr w2 where del: "zk_Delete w (zk_path chroot name) 0 = (derr, w2)"
    by (cases "zk_Delete w (zk_path chroot name) 0")
  note D = zk_Delete_props [OF del]
  show ?thesis
  proof (cases "derr \<noteq> None \<and> derr \<noteq> Some ErrNoNode")
    case True
    with assms del have "w1 = w2" "e \<noteq> None"
      by (auto simp: writeToZookeeper_def Let_def)
    with D True show ?thesis
      using zk_path_neq_dir [of chroot name] by auto
  next
    case False
    obtain derr2 w3 where ens: "ensureDirectory w2 (zk_dir chroot) = (derr2, w3)"
      by (cases "ensureDirectory w2 (zk_dir chroot)")
    note E = ensureDirectory_props [OF ens]
    show ?thesis
    proof (cases derr2)
      case (Some err)
      with assms del ens False have "w1 = w3" "e \<noteq> None"
        by (auto simp: writeToZookeeper_def Let_def)
      with D E show ?thesis
        using zk_path_neq_dir [of chroot name] by (auto split: if_splits)
    next
      case None
      with assms del ens False have cre: "createDataNode w3 (zk_path chroot name) d = (e, w1)"
        by (auto simp: writeToZookeeper_def Let_def)
      note C = createDataNode_props [OF cre]
      from D E C show ?thesis
        using zk_path_neq_dir [of chroot name] by (auto split: if_splits)
    qed
  qed
qed

lemma zk_GetACL_honest:
  assumes "faults w = []" "nodes w p = Some n"
  shows "zk_GetACL w p = (Inr (acl n), w\<lparr>journal := journal w @ [GetACLCall p]\<rparr>)"
  using assms by (simp add: zk_GetACL_def request_def)

lemma ensureDirectory_mismatch:
  assumes "faults w = []" "nodes w dir = Some n" "wacl \<notin> set (acl n)"
  shows "ensureDirectory w dir =
           (Some (WrongACL dir (acl n)), w\<lparr>journal := journal w @ [GetACLCall dir]\<rparr>)"
  using assms by (simp add: ensureDirectory_def zk_GetACL_honest waclExists_iff)

lemma writeToZookeeper_mismatch:
  assumes dir: "nodes w (zk_dir zkChroot) = Some n" and bad: "wacl \<notin> set (acl n)"
    and honest: "tl (faults w) = []"
    and del: "zk_Delete w (zk_path zkChroot name) 0 = (derr, w1)"
  shows "writeToZookeeper zkChroot w name payload =
           (if derr \<noteq> None \<and> derr \<noteq> Some ErrNoNode
            then (map_option (UnableToDeletePath (zk_path zkChroot name)) derr, w1)
            else (Some (WrongACL (zk_dir zkChroot) (acl n)),
                  w1\<lparr>journal := journal w1 @ [GetACLCall (zk_dir zkChroot)]\<rparr>))"
proof -
  note D = zk_Delete_props [OF del]
  from D honest have f1: "faults w1 = []" by simp
  from D dir have n1: "nodes w1 (zk_dir zkChroot) = Some n"
    using zk_path_neq_dir [of zkChroot name] by (auto split: if_splits)
  show ?thesis
    using del ensureDirectory_mismatch [OF f1 n1 bad]
    by (simp add: writeToZookeeper_def Let_def)
qed

section \<open>Properties of the dry run\<close>

lemma sorted_mset_unique:
  fixes xs ys :: "int list"
  assumes "sorted xs" "sorted ys" "mset xs = mset ys"
  shows "xs = ys"
  using assms properties_for_sort [of xs ys] sorted_sort_id [of ys] by simp

lemma range_ok_keys:
  assumes "range_ok m kvs"
  shows "mset (map fst kvs) = mset_set (dom m)"
proof -
  from assms have d: "distinct (map fst kvs)" and m: "map_of kvs = m"
    by (simp_all add: range_ok_def)
  have "dom m = set (map fst kvs)"
    using m by (simp add: dom_map_of_conv_image_fst [symmetric])
  with d show ?thesis by (simp add: mset_set_set del: set_map)
qed

lemma range_ok_member:
  assumes "range_ok m kvs" "(k, v) \<in> set kvs"
  shows "m k = Some v"
  using assms by (auto simp: range_ok_def)

lemma printed_partitions_topic:
  "printed_partitions (dry_run_topic env tm) = map Partition (dry_run_entries env (snd tm))"
proof -
  have "printed_partitions (map (\<lambda>e. LogPartition (f e) (g e)) es) = map f es" for f g and es :: "el list"
    by (induction es) (simp_all add: printed_partitions_def)
  then show ?thesis
    by (simp add: dry_run_topic_def printed_partitions_def)
qed

lemma dry_run_entries_partitions:
  assumes srt: "sort_ok (sort_Slice env)" and rng: "range_ok m (range_partitions env m)"
  shows "sorted (map Partition (dry_run_entries env m))
       \<and> mset (map Partition (dry_run_entries env m)) =
           image_mset (strconv_Atoi env) (mset_set (dom m))"
proof -
  let ?es = "map (\<lambda>(partition, obj).
               \<lparr>Partition = strconv_Atoi env partition,
                Size = to_uint64 env (partitionSizeValue.Size obj)\<rparr>)
            (range_partitions env m)"
  from srt have perm: "mset (dry_run_entries env m) = mset ?es"
    and ord: "sorted_wrt (\<lambda>a b. \<not> less_Partition b a) (dry_run_entries env m)"
    by (simp_all add: sort_ok_def dry_run_entries_def)
  have srtd: "sorted (map Partition (dry_run_entries env m))"
    using ord by (simp add: sorted_map less_Partition_def not_less)
  have eq: "map Partition ?es = map (strconv_Atoi env) (map fst (range_partitions env m))"
    by (simp add: case_prod_beta comp_def)
  have "mset (map Partition ?es) = image_mset (strconv_Atoi env) (mset (map fst (range_partitions env m)))"
    unfolding eq by (rule mset_map)
  then have keys: "mset (map Partition ?es) = image_mset (strconv_Atoi env) (mset_set (dom m))"
    unfolding range_ok_keys [OF rng] .
  have "mset (map Partition (dry_run_entries env m)) = image_mset Partition (mset (dry_run_entries env m))"
    by (rule mset_map)
  also have "\<dots> = image_mset Partition (mset ?es)"
    unfolding perm ..
  also have "\<dots> = mset (map Partition ?es)"
    by (rule mset_map [symmetric])
  finally have "mset (map Partition (dry_run_entries env m)) =
      image_mset (strconv_Atoi env) (mset_set (dom m))"
    unfolding keys .
  with srtd show ?thesis by (rule conjI)
qed

lemma permuted_samples_same_keys:
  assumes "mset ss' = mset ss"
    and "fold partitionStep ss Map.empty t = Some m"
    and "fold partitionStep ss' Map.empty t = Some m'"
  shows "dom m' = dom m"
proof -
  from assms(1) have sets: "set ss' = set ss" by (rule mset_eq_setD)
  have "lookup2 (fold partitionStep ss' Map.empty) t p = None \<longleftrightarrow>
        lookup2 (fold partitionStep ss Map.empty) t p = None" for p
    by (simp add: lookup2_fold_partitionStep_empty sets)
  then have "m' p = None \<longleftrightarrow> m p = None" for p
    using assms(2,3) by (simp add: lookup2_def)
  then show ?thesis by (auto simp: dom_def)
qed

section \<open>Concrete runs\<close>

lemmas run_defs =
  processData_def writeToZookeeper_def ensureDirectory_def createDataNode_def
  zk_Delete_def zk_GetACL_def zk_Create_def zk_Close_def request_def
  zk_dir_def zk_path_def root_def wacl_def WorldACL_def PermAll_def Let_def

lemma restricted_write:
  "writeToZookeeper [] restricted_store ''partitionmeta'' payload =
     (Some (WrongACL ''/topicmappr'' [\<lparr>Perms = 0xf, Scheme = ''world'', ID = ''anyone''\<rparr>]),
      \<lparr>nodes = [''/topicmappr'' \<mapsto>
                 \<lparr>data = [], acl = [\<lparr>Perms = 0xf, Scheme = ''world'', ID = ''anyone''\<rparr>], version = 0\<rparr>,
               ''/topicmappr/brokermetrics'' \<mapsto>
                 \<lparr>data = ''old brokers'', acl = WorldACL PermAll, version = 0\<rparr>],
       faults = [], journal = [DeleteCall ''/topicmappr/partitionmeta'' 0, GetACLCall ''/topicmappr''],
       log = []\<rparr>)"
  by (simp add: run_defs restricted_store_def fun_upd_twist)

lemma restricted_run:
  "processData example_env False [] restricted_store brokerMetrics partitionMapping =
     (Some (WrongACL ''/topicmappr'' [\<lparr>Perms = 0xf, Scheme = ''world'', ID = ''anyone''\<rparr>]),
      \<lparr>nodes = [''/topicmappr'' \<mapsto>
                 \<lparr>data = [], acl = [\<lparr>Perms = 0xf, Scheme = ''world'', ID = ''anyone''\<rparr>], version = 0\<rparr>,
               ''/topicmappr/brokermetrics'' \<mapsto>
                 \<lparr>data = ''old brokers'', acl = WorldACL PermAll, version = 0\<rparr>],
       faults = [],
       journal = [DeleteCall ''/topicmappr/partitionmeta'' 0, GetACLCall ''/topicmappr'', CloseCall],
       log = []\<rparr>)"
  by (simp add: processData_def example_env_def restricted_write zk_Close_def)

lemma racing_write:
  "writeToZookeeper [] racing_store ''partitionmeta'' ''new partitions'' =
     (None,
      \<lparr>nodes = [''/topicmappr'' \<mapsto> \<lparr>data = [], acl = WorldACL PermAll, version = 0\<rparr>,
               ''/topicmappr/partitionmeta'' \<mapsto>
                 \<lparr>data = ''new partitions'', acl = WorldACL PermAll, version = 0\<rparr>],
       faults = [],
       journal = [DeleteCall ''/topicmappr/partitionmeta'' 0, GetACLCall ''/topicmappr'',
                  CreateCall ''/topicmappr'' [] 0 (WorldACL PermAll),
                  CreateCall ''/topicmappr/partitionmeta'' ''new partitions'' 0 (WorldACL PermAll)],
       log = [LogWriting ''/topicmappr/partitionmeta'']\<rparr>)"
  by (simp add: run_defs racing_store_def)

lemma racing_steps:
  "zk_Delete racing_store ''/topicmappr/partitionmeta'' 0 =
     (Some ErrNoNode, racing_store\<lparr>faults := [Some ErrNoNode],
        journal := [DeleteCall ''/topicmappr/partitionmeta'' 0]\<rparr>)"
  "zk_GetACL (racing_store\<lparr>faults := [Some ErrNoNode],
        journal := [DeleteCall ''/topicmappr/partitionmeta'' 0]\<rparr>) ''/topicmappr'' =
     (Inl ErrNoNode, racing_store\<lparr>faults := [],
        journal := [DeleteCall ''/topicmappr/partitionmeta'' 0, GetACLCall ''/topicmappr'']\<rparr>)"
  "zk_Create (racing_store\<lparr>faults := [],
        journal := [DeleteCall ''/topicmappr/partitionmeta'' 0, GetACLCall ''/topicmappr'']\<rparr>)
      ''/topicmappr'' [] 0 [\<lparr>Perms = 0x1f, Scheme = ''world'', ID = ''anyone''\<rparr>] =
     (Some ErrNodeExists, racing_store\<lparr>faults := [],
        journal := [DeleteCall ''/topicmappr/partitionmeta'' 0, GetACLCall ''/topicmappr'',
                    CreateCall ''/topicmappr'' [] 0 [\<lparr>Perms = 0x1f, Scheme = ''world'', ID = ''anyone''\<rparr>]]\<rparr>)"
  by (simp_all add: run_defs racing_store_def)

lemma example_sort_ok: "sort_ok (\<lambda>less. sort_key Partition)"
proof -
  have "sorted_wrt (\<lambda>a b. \<not> less_Partition b a) (sort_key Partition xs)" for xs :: "el list"
    using sorted_sort_key [of Partition xs]
    by (simp add: sorted_map less_Partition_def not_less)
  then show ?thesis by (simp add: sort_ok_def)
qed

lemma example_contract: "dry_run_contract example_env [''t1'' \<mapsto> example_partitions]"
  using example_sort_ok
  by (simp add: dry_run_contract_def example_env_def range_ok_def example_partitions_def)

lemma example_entries:
  "dry_run_entries example_env example_partitions =
     [\<lparr>Partition = 1, Size = 100\<rparr>, \<lparr>Partition = 2, Size = 200\<rparr>, \<lparr>Partition = 10, Size = 300\<rparr>]"
  by (simp add: dry_run_entries_def example_env_def example_Atoi_def digit_of_def)

lemma stale_write:
  "writeToZookeeper [] stale_store ''partitionmeta'' payload =
     (Some (UnableToDeletePath ''/topicmappr/partitionmeta'' ErrBadVersion),
      stale_store\<lparr>journal := [DeleteCall ''/topicmappr/partitionmeta'' 0]\<rparr>)"
  by (simp add: run_defs stale_store_def)

lemma closed_session_write:
  "writeToZookeeper [] closed_session_store ''partitionmeta'' payload =
     (Some (UnableToDeletePath ''/topicmappr/partitionmeta'' ErrConnectionClosed),
      closed_session_store\<lparr>faults := [], journal := [DeleteCall ''/topicmappr/partitionmeta'' 0]\<rparr>)"
  by (simp add: run_defs closed_session_store_def)

lemma stale_delete:
  "zk_Delete stale_store ''/topicmappr/partitionmeta'' 0 =
     (Some ErrBadVersion, stale_store\<lparr>journal := [DeleteCall ''/topicmappr/partitionmeta'' 0]\<rparr>)"
  by (simp add: run_defs stale_store_def)

section \<open>Claims about the mappers\<close>

text \<open>
  Claim C8.  A query result that is not vector-shaped (a scalar, a matrix, a string) makes
  both \<open>getBrokerFreeSpace\<close> and \<open>getPartitionSizes\<close> return the empty map, and
  neither reports an error.
\<close>

theorem non_vector_result_gives_empty_maps:
  assumes "Type result \<noteq> ValVector"
  shows "getBrokerFreeSpace flBrokerIDLabel (Inr result) = Inr Map.empty
       \<and> getPartitionSizes (Inr result) = Inr Map.empty"
  using assms by (cases result) (simp_all add: getBrokerFreeSpace_def getPartitionSizes_def)

theorem non_vector_result_gives_empty_maps_witness:
  "Type (Scalar (1::int) 0) \<noteq> ValVector
   \<and> getBrokerFreeSpace ''broker_id'' (Inr (Scalar (1::int) 0)) = Inr Map.empty
   \<and> getPartitionSizes (Inr (Scalar (1::int) 0)) = Inr Map.empty"
  using non_vector_result_gives_empty_maps [of "Scalar (1::int) 0" "''broker_id''"] by simp

text \<open>
  Claim C10.  When a vector-shaped broker-storage result contains a sample without the
  configured broker-ID label, \<open>getBrokerFreeSpace\<close> returns a map (no error) that has the
  empty string as a key: the sample is neither skipped nor rejected.  The value under the
  empty key is that of the last sample whose label reads as the empty string; when no sample
  carries the label with an explicitly empty value, that is the last sample lacking the label.
\<close>

theorem broker_sample_without_label_goes_under_empty_key:
  assumes "\<exists>s\<in>set ss. flBrokerIDLabel \<notin> dom (Metric s)"
  shows "\<exists>m. getBrokerFreeSpace flBrokerIDLabel (Inr (Vector ss)) = Inr m
     \<and> m [] = Some \<lparr>StorageFree =
          Value (last (filter (\<lambda>s. label_value (Metric s) flBrokerIDLabel = []) ss))\<rparr>
     \<and> ((\<forall>s\<in>set ss. Metric s flBrokerIDLabel \<noteq> Some []) \<longrightarrow>
          m [] = Some \<lparr>StorageFree =
            Value (last (filter (\<lambda>s. flBrokerIDLabel \<notin> dom (Metric s)) ss))\<rparr>)"
proof -
  let ?m = "fold (brokerStep flBrokerIDLabel) ss Map.empty"
  have run: "getBrokerFreeSpace flBrokerIDLabel (Inr (Vector ss)) = Inr ?m"
    by (simp add: getBrokerFreeSpace_def)
  from assms obtain s0 where s0: "s0 \<in> set ss" "Metric s0 flBrokerIDLabel = None"
    by (auto simp: dom_def)
  then have "label_value (Metric s0) flBrokerIDLabel = []"
    by (simp add: label_value_def)
  with s0 have ex: "\<exists>s\<in>set ss. label_value (Metric s) flBrokerIDLabel = []"
    by blast
  have stored: "?m [] = Some \<lparr>StorageFree =
          Value (last (filter (\<lambda>s. label_value (Metric s) flBrokerIDLabel = []) ss))\<rparr>"
    using ex by (simp add: fold_brokerStep_lookup)
  have same: "filter (\<lambda>s. label_value (Metric s) flBrokerIDLabel = []) ss
            = filter (\<lambda>s. flBrokerIDLabel \<notin> dom (Metric s)) ss"
    if "\<forall>s\<in>set ss. Metric s flBrokerIDLabel \<noteq> Some []"
    using that by (intro filter_cong) (auto simp: label_value_def dom_def split: option.splits)
  show ?thesis using run stored same by auto
qed

theorem broker_sample_without_label_goes_under_empty_key_witness:
  "''broker_id'' \<notin> dom (Metric \<lparr>Metric = Map.empty, Value = 5::int, Timestamp = 0\<rparr>)
   \<and> getBrokerFreeSpace ''broker_id''
     (Inr (Vector [\<lparr>Metric = Map.empty, Value = 5::int, Timestamp = 0\<rparr>,
                   \<lparr>Metric = [''broker_id'' \<mapsto> ''1001''], Value = 6, Timestamp = 0\<rparr>,
                   \<lparr>Metric = [''instance'' \<mapsto> ''a''], Value = 7, Timestamp = 0\<rparr>]))
   = Inr [[] \<mapsto> \<lparr>StorageFree = 7\<rparr>, ''1001'' \<mapsto> \<lparr>StorageFree = 6\<rparr>]"
  using broker_sample_without_label_goes_under_empty_key
    [of "[\<lparr>Metric = Map.empty, Value = 5::int, Timestamp = 0\<rparr>,
          \<lparr>Metric = [''broker_id'' \<mapsto> ''1001''], Value = 6, Timestamp = 0\<rparr>,
          \<lparr>Metric = [''instance'' \<mapsto> ''a''], Value = 7, Timestamp = 0\<rparr>]" "''broker_id''"]
  by (auto simp: getBrokerFreeSpace_def brokerStep_def label_value_def)

text \<open>
  Claim C1, as stated: a sample whose raw broker-ID label value is absent from the
  identifier-translation table makes the mapper fail with a translation-miss error.  The
  program has no translation table: \<open>getBrokerFreeSpace\<close> takes the label name and the
  query result only, and \<open>failure\<close> has no such error.  At the input below, whose raw
  value is absent from a table that maps another address, the mapper returns a map keyed by
  the raw value.
\<close>

theorem translation_miss_counterexample:
  "[''10.0.0.2'' \<mapsto> ''1002''] ''10.0.0.1'' = (None :: string option)
   \<and> getBrokerFreeSpace ''broker_id''
       (Inr (Vector [\<lparr>Metric = [''broker_id'' \<mapsto> ''10.0.0.1''], Value = 5::int, Timestamp = 0\<rparr>]))
     = Inr [''10.0.0.1'' \<mapsto> \<lparr>StorageFree = 5\<rparr>]"
  by (simp add: getBrokerFreeSpace_def brokerStep_def label_value_def)

text \<open>
  Claim C1, amended.  \<open>getBrokerFreeSpace\<close> consults no translation table and never
  fails on a vector-shaped result: it returns a map whose keys are exactly the raw values of
  the broker-ID label of the samples, so no sample is dropped, and each key holds the value
  of the last sample that carries it.
\<close>

theorem getBrokerFreeSpace_keys_are_raw_label_values:
  "\<exists>m. getBrokerFreeSpace flBrokerIDLabel (Inr (Vector ss)) = Inr m
     \<and> dom m = (\<lambda>s. label_value (Metric s) flBrokerIDLabel) ` set ss
     \<and> (\<forall>s\<in>set ss.
          m (label_value (Metric s) flBrokerIDLabel) =
            Some \<lparr>StorageFree = Value (last (filter
              (\<lambda>s'. label_value (Metric s') flBrokerIDLabel = label_value (Metric s) flBrokerIDLabel)
              ss))\<rparr>)"
proof -
  let ?m = "fold (brokerStep flBrokerIDLabel) ss Map.empty"
  have run: "getBrokerFreeSpace flBrokerIDLabel (Inr (Vector ss)) = Inr ?m"
    by (simp add: getBrokerFreeSpace_def)
  have keys: "dom ?m = (\<lambda>s. label_value (Metric s) flBrokerIDLabel) ` set ss"
    by (auto simp: dom_def fold_brokerStep_lookup)
  have vals: "\<forall>s\<in>set ss.
          ?m (label_value (Metric s) flBrokerIDLabel) =
            Some \<lparr>StorageFree = Value (last (filter
              (\<lambda>s'. label_value (Metric s') flBrokerIDLabel = label_value (Metric s) flBrokerIDLabel)
              ss))\<rparr>"
    by (auto simp: fold_brokerStep_lookup)
  show ?thesis using run keys vals by blast
qed

theorem getBrokerFreeSpace_keys_are_raw_label_values_witness:
  "getBrokerFreeSpace ''broker_id''
       (Inr (Vector [\<lparr>Metric = [''broker_id'' \<mapsto> ''10.0.0.1''], Value = 5::int, Timestamp = 0\<rparr>,
                     \<lparr>Metric = [''broker_id'' \<mapsto> ''10.0.0.1''], Value = 8, Timestamp = 1\<rparr>]))
     = Inr [''10.0.0.1'' \<mapsto> \<lparr>StorageFree = 8\<rparr>]"
  using getBrokerFreeSpace_keys_are_raw_label_values
    [of "''broker_id''" "[\<lparr>Metric = [''broker_id'' \<mapsto> ''10.0.0.1''], Value = 5::int, Timestamp = 0\<rparr>,
                     \<lparr>Metric = [''broker_id'' \<mapsto> ''10.0.0.1''], Value = 8, Timestamp = 1\<rparr>]"]
  by (simp add: getBrokerFreeSpace_def brokerStep_def label_value_def)

text \<open>
  Claim C3, as stated: a sample without the \<open>topic\<close> or the \<open>partition\<close> label is
  excluded from the output of \<open>getPartitionSizes\<close>.  The loop has no test for the presence
  of a label; the sample below has no \<open>partition\<close> label and is filed under the empty
  partition key.
\<close>

theorem missing_label_sample_counterexample:
  "''partition'' \<notin> dom [''topic'' \<mapsto> ''t1'']
   \<and> getPartitionSizes
       (Inr (Vector [\<lparr>Metric = [''topic'' \<mapsto> ''t1''], Value = 7::int, Timestamp = 0\<rparr>]))
     = Inr [''t1'' \<mapsto> [[] \<mapsto> \<lparr>partitionSizeValue.Size = 7\<rparr>]]"
  by (simp add: getPartitionSizes_def partitionStep_def label_value_def)

text \<open>
  Claim C3, amended.  \<open>getPartitionSizes\<close> excludes no sample, and a missing label is not
  an error: a sample without the \<open>topic\<close> or the \<open>partition\<close> label is filed under the
  empty string in place of the missing label, and that entry of the output holds the value
  of the last sample filed under the same pair of keys.
\<close>

theorem getPartitionSizes_files_missing_labels_under_empty_string:
  assumes "s \<in> set ss"
    and "''topic'' \<notin> dom (Metric s) \<or> ''partition'' \<notin> dom (Metric s)"
  shows "\<exists>m. getPartitionSizes (Inr (Vector ss)) = Inr m
     \<and> (fst (sample_pair s) = [] \<or> snd (sample_pair s) = [])
     \<and> lookup2 m (fst (sample_pair s)) (snd (sample_pair s)) =
          Some \<lparr>partitionSizeValue.Size =
            Value (last (filter (\<lambda>s'. sample_pair s' = sample_pair s) ss))\<rparr>"
proof -
  let ?m = "fold partitionStep ss Map.empty"
  have run: "getPartitionSizes (Inr (Vector ss)) = Inr ?m"
    by (simp add: getPartitionSizes_def)
  have key: "fst (sample_pair s) = [] \<or> snd (sample_pair s) = []"
    using assms(2) by (auto simp: sample_pair_def label_value_def dom_def)
  have "\<exists>s'\<in>set ss. sample_pair s' = (fst (sample_pair s), snd (sample_pair s))"
    using assms(1) by auto
  then have entry: "lookup2 ?m (fst (sample_pair s)) (snd (sample_pair s)) =
          Some \<lparr>partitionSizeValue.Size =
            Value (last (filter (\<lambda>s'. sample_pair s' = sample_pair s) ss))\<rparr>"
    by (simp add: lookup2_fold_partitionStep_empty)
  show ?thesis using run key entry by blast
qed

theorem getPartitionSizes_files_missing_labels_under_empty_string_witness:
  "''partition'' \<notin> dom [''topic'' \<mapsto> ''t1'']
   \<and> getPartitionSizes
       (Inr (Vector [\<lparr>Metric = [''topic'' \<mapsto> ''t1''], Value = 7::int, Timestamp = 0\<rparr>,
                     \<lparr>Metric = [''topic'' \<mapsto> ''t1'', ''partition'' \<mapsto> ''0''], Value = 9, Timestamp = 0\<rparr>]))
     = Inr [''t1'' \<mapsto> [[] \<mapsto> \<lparr>partitionSizeValue.Size = 7\<rparr>, ''0'' \<mapsto> \<lparr>partitionSizeValue.Size = 9\<rparr>]]"
  using getPartitionSizes_files_missing_labels_under_empty_string
    [of "\<lparr>Metric = [''topic'' \<mapsto> ''t1''], Value = 7::int, Timestamp = 0\<rparr>"
        "[\<lparr>Metric = [''topic'' \<mapsto> ''t1''], Value = 7::int, Timestamp = 0\<rparr>,
          \<lparr>Metric = [''topic'' \<mapsto> ''t1'', ''partition'' \<mapsto> ''0''], Value = 9, Timestamp = 0\<rparr>]"]
  by (simp add: getPartitionSizes_def partitionStep_def label_value_def)

text \<open>
  Claim C6.  When every sample of a vector-shaped result carries both the \<open>topic\<close> and the
  \<open>partition\<close> label, the two-level map returned by \<open>getPartitionSizes\<close> has an entry
  at (topic, partition) exactly when some sample carries that pair, the entry holds the value
  of the last such sample in the order of the result, and the topics of the map are exactly
  the topics of the samples.
\<close>

theorem getPartitionSizes_one_entry_per_pair_last_wins:
  assumes "\<forall>s\<in>set ss. ''topic'' \<in> dom (Metric s) \<and> ''partition'' \<in> dom (Metric s)"
  shows "\<exists>m. getPartitionSizes (Inr (Vector ss)) = Inr m
     \<and> (\<forall>t p. lookup2 m t p =
          (if \<exists>s\<in>set ss. Metric s ''topic'' = Some t \<and> Metric s ''partition'' = Some p
           then Some \<lparr>partitionSizeValue.Size = Value (last (filter
                  (\<lambda>s. Metric s ''topic'' = Some t \<and> Metric s ''partition'' = Some p) ss))\<rparr>
           else None))
     \<and> (\<forall>t. t \<in> dom m \<longleftrightarrow> (\<exists>s\<in>set ss. Metric s ''topic'' = Some t))"
proof -
  let ?m = "fold partitionStep ss Map.empty"
  have run: "getPartitionSizes (Inr (Vector ss)) = Inr ?m"
    by (simp add: getPartitionSizes_def)
  have pair: "sample_pair s = (t, p) \<longleftrightarrow> Metric s ''topic'' = Some t \<and> Metric s ''partition'' = Some p"
    if "s \<in> set ss" for s t p
    using assms that by (auto simp: sample_pair_def label_value_def dom_def)
  have topic: "label_value (Metric s) ''topic'' = t \<longleftrightarrow> Metric s ''topic'' = Some t"
    if "s \<in> set ss" for s t
    using assms that by (auto simp: label_value_def dom_def)
  have flt: "filter (\<lambda>s. sample_pair s = (t, p)) ss =
             filter (\<lambda>s. Metric s ''topic'' = Some t \<and> Metric s ''partition'' = Some p) ss" for t p
    by (intro filter_cong refl) (simp add: pair)
  have ex: "(\<exists>s\<in>set ss. sample_pair s = (t, p)) \<longleftrightarrow>
            (\<exists>s\<in>set ss. Metric s ''topic'' = Some t \<and> Metric s ''partition'' = Some p)" for t p
    using pair by blast
  have entries: "\<forall>t p. lookup2 ?m t p =
          (if \<exists>s\<in>set ss. Metric s ''topic'' = Some t \<and> Metric s ''partition'' = Some p
           then Some \<lparr>partitionSizeValue.Size = Value (last (filter
                  (\<lambda>s. Metric s ''topic'' = Some t \<and> Metric s ''partition'' = Some p) ss))\<rparr>
           else None)"
    unfolding lookup2_fold_partitionStep_empty flt ex by simp
  have topics: "\<forall>t. t \<in> dom ?m \<longleftrightarrow> (\<exists>s\<in>set ss. Metric s ''topic'' = Some t)"
  proof (intro allI)
    fix t
    have "t \<in> dom ?m \<longleftrightarrow> (\<exists>s\<in>set ss. label_value (Metric s) ''topic'' = t)"
      unfolding dom_fold_partitionStep by auto
    also have "\<dots> \<longleftrightarrow> (\<exists>s\<in>set ss. Metric s ''topic'' = Some t)"
      using topic by blast
    finally show "t \<in> dom ?m \<longleftrightarrow> (\<exists>s\<in>set ss. Metric s ''topic'' = Some t)" .
  qed
  show ?thesis using run entries topics by blast
qed

theorem getPartitionSizes_one_entry_per_pair_last_wins_witness:
  "getPartitionSizes
     (Inr (Vector [\<lparr>Metric = [''topic'' \<mapsto> ''t1'', ''partition'' \<mapsto> ''0''], Value = 100::int, Timestamp = 0\<rparr>,
                   \<lparr>Metric = [''topic'' \<mapsto> ''t1'', ''partition'' \<mapsto> ''1''], Value = 200, Timestamp = 0\<rparr>]))
   = Inr [''t1'' \<mapsto> [''0'' \<mapsto> \<lparr>partitionSizeValue.Size = 100\<rparr>, ''1'' \<mapsto> \<lparr>partitionSizeValue.Size = 200\<rparr>]]"
  using getPartitionSizes_one_entry_per_pair_last_wins
    [of "[\<lparr>Metric = [''topic'' \<mapsto> ''t1'', ''partition'' \<mapsto> ''0''], Value = 100::int, Timestamp = 0\<rparr>,
          \<lparr>Metric = [''topic'' \<mapsto> ''t1'', ''partition'' \<mapsto> ''1''], Value = 200, Timestamp = 0\<rparr>]"]
  by (simp add: getPartitionSizes_def partitionStep_def label_value_def)

section \<open>Claims about publishing\<close>

text \<open>
  Claim C7.  The chroot is the part of the store address from its first \<open>/\<close> onward
  (empty when the address has none); the directory path is the chroot followed by
  \<open>/topicmappr\<close> when the chroot is not empty and \<open>/topicmappr\<close> otherwise; the path of
  a data node is the directory path, a \<open>/\<close> and the node name.  These are the paths of the
  requests \<open>writeToZookeeper\<close> sends: its first request deletes the data node path, and
  every later one addresses the directory or the data node.
\<close>

theorem node_paths_follow_chroot:
  "snd (split_zk_addr flZkAddr) = dropWhile (\<lambda>c. c \<noteq> CHR ''/'') flZkAddr
   \<and> zk_dir zkChroot = (if zkChroot \<noteq> [] then zkChroot @ ''/topicmappr'' else ''/topicmappr'')
   \<and> zk_path zkChroot name = zk_dir zkChroot @ ''/'' @ name
   \<and> (\<exists>cs. journal (snd (writeToZookeeper zkChroot w name payload)) =
              journal w @ DeleteCall (zk_dir zkChroot @ ''/'' @ name) 0 # cs
          \<and> set cs \<subseteq> {GetACLCall (zk_dir zkChroot),
                       CreateCall (zk_dir zkChroot) [] 0 (WorldACL PermAll),
                       CreateCall (zk_dir zkChroot @ ''/'' @ name) payload 0 (WorldACL PermAll)})"
proof -
  obtain e w1 where run: "writeToZookeeper zkChroot w name payload = (e, w1)"
    by (cases "writeToZookeeper zkChroot w name payload")
  from writeToZookeeper_props [OF run]
  have "\<exists>cs. journal w1 = journal w @ DeleteCall (zk_path zkChroot name) 0 # cs
          \<and> set cs \<subseteq> {GetACLCall (zk_dir zkChroot),
                       CreateCall (zk_dir zkChroot) [] 0 (WorldACL PermAll),
                       CreateCall (zk_path zkChroot name) payload 0 (WorldACL PermAll)}"
    by blast
  then show ?thesis
    by (simp add: run split_zk_addr_eq zk_dir_def root_def zk_path_def)
qed

theorem node_paths_follow_chroot_witness:
  "split_zk_addr ''zookeeper:2181/my-chroot'' = (''zookeeper:2181'', ''/my-chroot'')
   \<and> zk_dir ''/my-chroot'' = ''/my-chroot/topicmappr''
   \<and> zk_path ''/my-chroot'' ''partitionmeta'' = ''/my-chroot/topicmappr/partitionmeta''
   \<and> zk_path (snd (split_zk_addr ''zookeeper:2181'')) ''brokermetrics'' = ''/topicmappr/brokermetrics''"
  using node_paths_follow_chroot [of "''zookeeper:2181/my-chroot''" "''/my-chroot''" "''partitionmeta''"]
    node_paths_follow_chroot [of "''zookeeper:2181''" "[]" "''brokermetrics''"]
  by (simp add: split_zk_addr_eq)

text \<open>
  Claim C5.  In a live run the requests of \<open>processData\<close> split into those of the
  \<open>partitionmeta\<close> write followed by those of the \<open>brokermetrics\<close> write (and the final
  close): no request of the first part addresses the \<open>brokermetrics\<close> node and none of the
  second part addresses the \<open>partitionmeta\<close> node.  When the \<open>partitionmeta\<close> write
  returns an error, \<open>processData\<close> returns that error and the second part is empty; the
  second write starts only after the \<open>partitionmeta\<close> node has been created.
\<close>

theorem partitionmeta_before_brokermetrics_fail_fast:
  assumes "processData env False zkChroot w brokerMetrics partitionMapping = (r, w')"
  shows "\<exists>cs1 cs2. journal w' = journal w @ cs1 @ cs2 @ [CloseCall]
     \<and> (\<forall>c\<in>set cs1. call_path c \<noteq> Some (zk_path zkChroot ''brokermetrics''))
     \<and> (\<forall>c\<in>set cs2. call_path c \<noteq> Some (zk_path zkChroot ''partitionmeta''))
     \<and> (\<forall>d1 d2 e1 w1.
           json_Marshal_partitions env partitionMapping = Inr d1 \<and>
           json_Marshal_brokers env brokerMetrics = Inr d2 \<and>
           writeToZookeeper zkChroot w ''partitionmeta'' d1 = (e1, w1) \<longrightarrow>
             journal w1 = journal w @ cs1
           \<and> (e1 \<noteq> None \<longrightarrow> r = e1 \<and> cs2 = [] \<and> w' = zk_Close w1)
           \<and> (e1 = None \<longrightarrow>
                 CreateCall (zk_path zkChroot ''partitionmeta'') d1 0 (WorldACL PermAll) \<in> set cs1
               \<and> hd cs2 = DeleteCall (zk_path zkChroot ''brokermetrics'') 0
               \<and> r = fst (writeToZookeeper zkChroot w1 ''brokermetrics'' d2)
               \<and> w' = zk_Close (snd (writeToZookeeper zkChroot w1 ''brokermetrics'' d2))))"
proof (cases "json_Marshal_partitions env partitionMapping")
  case (Inl err)
  with assms have "w' = zk_Close w" by (simp add: processData_def)
  then have "journal w' = journal w @ [] @ [] @ [CloseCall]" by (simp add: zk_Close_def)
  then show ?thesis using Inl by (intro exI [of _ "[]"]) simp
next
  case (Inr d1)
  note m1 = this
  show ?thesis
  proof (cases "json_Marshal_brokers env brokerMetrics")
    case (Inl err)
    with assms m1 have "w' = zk_Close w" by (simp add: processData_def)
    then have "journal w' = journal w @ [] @ [] @ [CloseCall]" by (simp add: zk_Close_def)
    then show ?thesis using Inl by (intro exI [of _ "[]"]) simp
  next
    case (Inr d2)
    note m2 = this
    obtain e1 w1 where first: "writeToZookeeper zkChroot w ''partitionmeta'' d1 = (e1, w1)"
      by (cases "writeToZookeeper zkChroot w ''partitionmeta'' d1")
    from writeToZookeeper_props [OF first]
    obtain cs where cs: "journal w1 = journal w @ DeleteCall (zk_path zkChroot ''partitionmeta'') 0 # cs"
      "set cs \<subseteq> {GetACLCall (zk_dir zkChroot),
                  CreateCall (zk_dir zkChroot) [] 0 (WorldACL PermAll),
                  CreateCall (zk_path zkChroot ''partitionmeta'') d1 0 (WorldACL PermAll)}"
      "e1 = None \<longrightarrow> CreateCall (zk_path zkChroot ''partitionmeta'') d1 0 (WorldACL PermAll) \<in> set cs"
      by blast
    let ?cs1 = "DeleteCall (zk_path zkChroot ''partitionmeta'') 0 # cs"
    have away1: "\<forall>c\<in>set ?cs1. call_path c \<noteq> Some (zk_path zkChroot ''brokermetrics'')"
      using cs(2) zk_path_neq_dir [of zkChroot "''brokermetrics''"]
      by (auto simp: zk_path_inj)
    show ?thesis
    proof (cases e1)
      case (Some err)
      with assms m1 m2 first have res: "r = e1" "w' = zk_Close w1"
        by (simp_all add: processData_def)
      then have "journal w' = journal w @ ?cs1 @ [] @ [CloseCall]"
        using cs(1) by (simp add: zk_Close_def)
      then show ?thesis
        using away1 res Some m1 m2 first cs(1)
        by (intro exI [of _ ?cs1] exI [of _ "[]"]) simp
    next
      case None
      obtain e2 w2 where second: "writeToZookeeper zkChroot w1 ''brokermetrics'' d2 = (e2, w2)"
        by (cases "writeToZookeeper zkChroot w1 ''brokermetrics'' d2")
      from writeToZookeeper_props [OF second]
      obtain ds where ds: "journal w2 = journal w1 @ DeleteCall (zk_path zkChroot ''brokermetrics'') 0 # ds"
        "set ds \<subseteq> {GetACLCall (zk_dir zkChroot),
                  CreateCall (zk_dir zkChroot) [] 0 (WorldACL PermAll),
                  CreateCall (zk_path zkChroot ''brokermetrics'') d2 0 (WorldACL PermAll)}"
        by blast
      let ?cs2 = "DeleteCall (zk_path zkChroot ''brokermetrics'') 0 # ds"
      have away2: "\<forall>c\<in>set ?cs2. call_path c \<noteq> Some (zk_path zkChroot ''partitionmeta'')"
        using ds(2) zk_path_neq_dir [of zkChroot "''partitionmeta''"]
        by (auto simp: zk_path_inj)
      from assms m1 m2 first second None have res: "r = e2" "w' = zk_Close w2"
        by (auto simp: processData_def split: option.splits)
      then have "journal w' = journal w @ ?cs1 @ ?cs2 @ [CloseCall]"
        using cs(1) ds(1) by (simp add: zk_Close_def)
      then show ?thesis
        using away1 away2 res None m1 m2 first second cs(1) cs(3)
        by (intro exI [of _ ?cs1] exI [of _ ?cs2]) simp
    qed
  qed
qed

theorem partitionmeta_before_brokermetrics_fail_fast_witness:
  "fst (processData example_env False [] restricted_store Map.empty Map.empty) =
     Some (WrongACL ''/topicmappr'' [\<lparr>Perms = 0xf, Scheme = ''world'', ID = ''anyone''\<rparr>])
   \<and> fst (writeToZookeeper [] restricted_store ''partitionmeta'' ''new partitions'') =
     Some (WrongACL ''/topicmappr'' [\<lparr>Perms = 0xf, Scheme = ''world'', ID = ''anyone''\<rparr>])
   \<and> journal (snd (processData example_env False [] restricted_store Map.empty Map.empty)) =
     [DeleteCall ''/topicmappr/partitionmeta'' 0, GetACLCall ''/topicmappr'', CloseCall]"
  using partitionmeta_before_brokermetrics_fail_fast
    [of example_env "[]" restricted_store Map.empty Map.empty
        "fst (processData example_env False [] restricted_store Map.empty Map.empty)"
        "snd (processData example_env False [] restricted_store Map.empty Map.empty)"]
  by (simp add: restricted_run restricted_write)

text \<open>
  Claim C2, as stated: when the directory node exists and its ACL list has no open entry,
  publishing fails and leaves both data nodes as they were.  \<open>writeToZookeeper\<close> deletes
  the data node before it reads the ACL of the directory, so in the store below, whose
  directory lets anyone delete but does not carry the open ACL, the \<open>partitionmeta\<close> node
  is gone when the ACL mismatch is reported.
\<close>

theorem data_node_untouched_counterexample:
  "nodes restricted_store ''/topicmappr'' =
     Some \<lparr>data = [], acl = [\<lparr>Perms = 0xf, Scheme = ''world'', ID = ''anyone''\<rparr>], version = 0\<rparr>
   \<and> \<lparr>Perms = 0x1f, Scheme = ''world'', ID = ''anyone''\<rparr>
       \<notin> set [\<lparr>Perms = 0xf, Scheme = ''world'', ID = ''anyone''\<rparr>]
   \<and> nodes restricted_store ''/topicmappr/partitionmeta'' =
     Some \<lparr>data = ''old partitions'', acl = WorldACL PermAll, version = 0\<rparr>
   \<and> fst (processData example_env False [] restricted_store Map.empty Map.empty) =
     Some (WrongACL ''/topicmappr'' [\<lparr>Perms = 0xf, Scheme = ''world'', ID = ''anyone''\<rparr>])
   \<and> nodes (snd (processData example_env False [] restricted_store Map.empty Map.empty))
       ''/topicmappr/partitionmeta'' = None"
  by (simp add: restricted_run) (simp add: restricted_store_def)

text \<open>
  Claim C2, amended.  Let the directory node exist with an ACL list that has no open entry,
  in a store that answers the ACL query from its nodes (at most the first request, the
  delete, is answered otherwise).  Then publishing fails; the \<open>brokermetrics\<close> node and the
  directory node are as before; nothing is created; the only node that can change is
  \<open>partitionmeta\<close>, which is removed when its delete is accepted, since the delete comes
  before the ACL check.  When both maps serialise, the error is the ACL mismatch if the
  delete was accepted or found no node, and the delete error otherwise.
\<close>

theorem acl_mismatch_aborts_after_the_delete:
  assumes dir: "nodes w (zk_dir zkChroot) = Some n"
    and bad: "\<lparr>Perms = 0x1f, Scheme = ''world'', ID = ''anyone''\<rparr> \<notin> set (acl n)"
    and honest: "tl (faults w) = []"
    and run: "processData env False zkChroot w brokerMetrics partitionMapping = (r, w')"
  shows "r \<noteq> None
     \<and> nodes w' (zk_path zkChroot ''brokermetrics'') = nodes w (zk_path zkChroot ''brokermetrics'')
     \<and> nodes w' (zk_dir zkChroot) = nodes w (zk_dir zkChroot)
     \<and> (nodes w' = nodes w \<or> nodes w' = (nodes w)(zk_path zkChroot ''partitionmeta'' := None))
     \<and> (\<forall>d1 d2 derr.
           json_Marshal_partitions env partitionMapping = Inr d1 \<and>
           json_Marshal_brokers env brokerMetrics = Inr d2 \<and>
           fst (zk_Delete w (zk_path zkChroot ''partitionmeta'') 0) = derr \<longrightarrow>
             (derr = None \<longrightarrow>
                r = Some (WrongACL (zk_dir zkChroot) (acl n)) \<and>
                nodes w' = (nodes w)(zk_path zkChroot ''partitionmeta'' := None))
           \<and> (derr = Some ErrNoNode \<longrightarrow>
                r = Some (WrongACL (zk_dir zkChroot) (acl n)) \<and> nodes w' = nodes w)
           \<and> (\<forall>e. derr = Some e \<and> e \<noteq> ErrNoNode \<longrightarrow>
                r = Some (UnableToDeletePath (zk_path zkChroot ''partitionmeta'') e) \<and>
                nodes w' = nodes w))"
proof -
  from bad have bad': "wacl \<notin> set (acl n)" by (simp add: wacl_eq)
  have neq: "zk_path zkChroot ''partitionmeta'' \<noteq> zk_path zkChroot ''brokermetrics''"
    "zk_path zkChroot ''partitionmeta'' \<noteq> zk_dir zkChroot"
    using zk_path_neq_dir [of zkChroot "''partitionmeta''"] by (simp_all add: zk_path_inj)
  show ?thesis
  proof (cases "json_Marshal_partitions env partitionMapping")
    case (Inl err)
    with run show ?thesis by (auto simp: processData_def zk_Close_def)
  next
    case (Inr d1)
    note m1 = this
    show ?thesis
    proof (cases "json_Marshal_brokers env brokerMetrics")
      case (Inl err)
      with run m1 show ?thesis by (auto simp: processData_def zk_Close_def)
    next
      case (Inr d2)
      obtain derr w1 where del: "zk_Delete w (zk_path zkChroot ''partitionmeta'') 0 = (derr, w1)"
        by (cases "zk_Delete w (zk_path zkChroot ''partitionmeta'') 0")
      note D = zk_Delete_props [OF del]
      note W = writeToZookeeper_mismatch [OF dir bad' honest del, of d1]
      show ?thesis
      proof (cases "derr \<noteq> None \<and> derr \<noteq> Some ErrNoNode")
        case True
        then obtain e where e: "derr = Some e" "e \<noteq> ErrNoNode" by auto
        with W have W': "writeToZookeeper zkChroot w ''partitionmeta'' d1 =
            (Some (UnableToDeletePath (zk_path zkChroot ''partitionmeta'') e), w1)"
          by auto
        with run m1 Inr have "r = Some (UnableToDeletePath (zk_path zkChroot ''partitionmeta'') e)"
          "w' = zk_Close w1"
          by (simp_all add: processData_def)
        with D e del show ?thesis by (simp add: zk_Close_def)
      next
        case False
        then have dz: "derr = None \<or> derr = Some ErrNoNode" by auto
        with W have W': "writeToZookeeper zkChroot w ''partitionmeta'' d1 =
            (Some (WrongACL (zk_dir zkChroot) (acl n)),
             w1\<lparr>journal := journal w1 @ [GetACLCall (zk_dir zkChroot)]\<rparr>)"
          by auto
        with run m1 Inr have res: "r = Some (WrongACL (zk_dir zkChroot) (acl n))"
          "w' = zk_Close (w1\<lparr>journal := journal w1 @ [GetACLCall (zk_dir zkChroot)]\<rparr>)"
          by (simp_all add: processData_def)
        from dz D res del neq show ?thesis by (auto simp: zk_Close_def)
      qed
    qed
  qed
qed

theorem acl_mismatch_aborts_after_the_delete_witness:
  "fst (processData example_env False [] restricted_store Map.empty Map.empty) =
     Some (WrongACL ''/topicmappr'' [\<lparr>Perms = 0xf, Scheme = ''world'', ID = ''anyone''\<rparr>])
   \<and> nodes (snd (processData example_env False [] restricted_store Map.empty Map.empty))
       ''/topicmappr/brokermetrics'' =
     Some \<lparr>data = ''old brokers'', acl = WorldACL PermAll, version = 0\<rparr>
   \<and> nodes (snd (processData example_env False [] restricted_store Map.empty Map.empty)) =
     (nodes restricted_store)(''/topicmappr/partitionmeta'' := None)"
  using acl_mismatch_aborts_after_the_delete
    [of restricted_store "[]"
        "\<lparr>data = [], acl = [\<lparr>Perms = 0xf, Scheme = ''world'', ID = ''anyone''\<rparr>], version = 0\<rparr>"
        example_env Map.empty Map.empty
        "fst (processData example_env False [] restricted_store Map.empty Map.empty)"
        "snd (processData example_env False [] restricted_store Map.empty Map.empty)"]
  by (simp add: restricted_run) (simp add: restricted_store_def fun_upd_twist)

text \<open>
  Claim C4, as stated: in every live publish of a node, an existing directory whose ACL
  list lacks the open ACL makes the publish abort with the ACL-mismatch error, and a
  missing directory is created.  \<open>writeToZookeeper\<close> deletes the data node first and
  returns at once when that delete fails with anything but \<open>ErrNoNode\<close>.  In the first
  store below the directory exists without the open ACL and the data node is at version 3:
  the publish aborts with the delete error, not the ACL-mismatch error.  In the second the
  directory is missing and the session is closed: the publish aborts with the delete error
  and never asks for the directory to be created.
\<close>

theorem refused_delete_counterexample:
  "nodes stale_store ''/topicmappr'' =
     Some \<lparr>data = [], acl = [\<lparr>Perms = 0xf, Scheme = ''world'', ID = ''anyone''\<rparr>], version = 0\<rparr>
   \<and> \<lparr>Perms = 0x1f, Scheme = ''world'', ID = ''anyone''\<rparr>
       \<notin> set [\<lparr>Perms = 0xf, Scheme = ''world'', ID = ''anyone''\<rparr>]
   \<and> writeToZookeeper [] stale_store ''partitionmeta'' ''new partitions'' =
       (Some (UnableToDeletePath ''/topicmappr/partitionmeta'' ErrBadVersion),
        stale_store\<lparr>journal := [DeleteCall ''/topicmappr/partitionmeta'' 0]\<rparr>)
   \<and> nodes closed_session_store ''/topicmappr'' = None
   \<and> fst (writeToZookeeper [] closed_session_store ''partitionmeta'' ''new partitions'') =
       Some (UnableToDeletePath ''/topicmappr/partitionmeta'' ErrConnectionClosed)
   \<and> journal (snd (writeToZookeeper [] closed_session_store ''partitionmeta'' ''new partitions'')) =
       [DeleteCall ''/topicmappr/partitionmeta'' 0]
   \<and> nodes (snd (writeToZookeeper [] closed_session_store ''partitionmeta'' ''new partitions''))
       ''/topicmappr'' = None"
  by (simp add: stale_write closed_session_write)
     (simp add: stale_store_def closed_session_store_def)

text \<open>
  Claim C4, amended.  In every live publish of a node, \<open>writeToZookeeper\<close> first deletes
  the data node; if that delete fails with an error other than \<open>ErrNoNode\<close> it returns
  the delete error, having sent no other request and changed no node.  Otherwise it
  queries the ACL of the directory.  If the directory exists, it goes on to create the data
  node (its next and last request) exactly when the list has an entry equal to the open ACL
  (scheme \<open>world\<close>, identity \<open>anyone\<close>, all five permissions); otherwise it returns the
  ACL-mismatch error naming the directory and the list it found, having sent no further
  request and left the directory node as it was.  If the directory does not exist, it
  requests its creation with the open ACL; on success or on \<open>ErrNodeExists\<close> it goes on to
  create the data node, and on any other error it returns that error.  If the ACL query
  fails with any other error, it returns that error, having sent no further request.
\<close>

theorem publish_of_a_node_step_by_step:
  assumes del: "zk_Delete w (zk_path zkChroot name) 0 = (derr, w1)"
    and get: "zk_GetACL w1 (zk_dir zkChroot) = (r, w2)"
  shows "(\<forall>e. derr = Some e \<and> e \<noteq> ErrNoNode \<longrightarrow>
            writeToZookeeper zkChroot w name payload =
              (Some (UnableToDeletePath (zk_path zkChroot name) e), w1)
          \<and> journal w1 = journal w @ [DeleteCall (zk_path zkChroot name) 0]
          \<and> nodes w1 = nodes w)
     \<and> (derr = None \<or> derr = Some ErrNoNode \<longrightarrow>
          (\<forall>acls. r = Inr acls \<longrightarrow>
            (if \<lparr>Perms = 0x1f, Scheme = ''world'', ID = ''anyone''\<rparr> \<in> set acls
             then writeToZookeeper zkChroot w name payload =
                    createDataNode w2 (zk_path zkChroot name) payload
                \<and> journal (snd (writeToZookeeper zkChroot w name payload)) =
                    journal w @ [DeleteCall (zk_path zkChroot name) 0,
                                 GetACLCall (zk_dir zkChroot),
                                 CreateCall (zk_path zkChroot name) payload 0
                                   [\<lparr>Perms = 0x1f, Scheme = ''world'', ID = ''anyone''\<rparr>]]
             else writeToZookeeper zkChroot w name payload =
                    (Some (WrongACL (zk_dir zkChroot) acls), w2)
                \<and> nodes w2 (zk_dir zkChroot) = nodes w (zk_dir zkChroot)
                \<and> journal w2 = journal w @ [DeleteCall (zk_path zkChroot name) 0,
                                             GetACLCall (zk_dir zkChroot)]))
        \<and> (r = Inl ErrNoNode \<longrightarrow>
            (\<forall>cerr w3.
               zk_Create w2 (zk_dir zkChroot) [] 0
                   [\<lparr>Perms = 0x1f, Scheme = ''world'', ID = ''anyone''\<rparr>] = (cerr, w3) \<longrightarrow>
                 journal w3 = journal w @ [DeleteCall (zk_path zkChroot name) 0,
                                            GetACLCall (zk_dir zkChroot),
                                            CreateCall (zk_dir zkChroot) [] 0
                                              [\<lparr>Perms = 0x1f, Scheme = ''world'', ID = ''anyone''\<rparr>]]
               \<and> (if cerr = None \<or> cerr = Some ErrNodeExists
                    then writeToZookeeper zkChroot w name payload =
                           createDataNode w3 (zk_path zkChroot name) payload
                       \<and> journal (snd (writeToZookeeper zkChroot w name payload)) =
                           journal w3 @ [CreateCall (zk_path zkChroot name) payload 0
                                   [\<lparr>Perms = 0x1f, Scheme = ''world'', ID = ''anyone''\<rparr>]]
                    else \<exists>e. cerr = Some e \<and>
                           writeToZookeeper zkChroot w name payload =
                             (Some (UnableToCreateNode (zk_dir zkChroot) e), w3))))
        \<and> (\<forall>err. r = Inl err \<and> err \<noteq> ErrNoNode \<longrightarrow>
              writeToZookeeper zkChroot w name payload =
                (Some (UnableToGetNodeACL (zk_dir zkChroot) err), w2)
            \<and> nodes w2 (zk_dir zkChroot) = nodes w (zk_dir zkChroot)
            \<and> journal w2 = journal w @ [DeleteCall (zk_path zkChroot name) 0,
                                         GetACLCall (zk_dir zkChroot)]))"
proof -
  let ?open = "\<lparr>Perms = 0x1f, Scheme = ''world'', ID = ''anyone''\<rparr>"
  let ?P = "zk_path zkChroot name" and ?D = "zk_dir zkChroot"
  let ?run = "writeToZookeeper zkChroot w name payload"
  note D = zk_Delete_props [OF del]
  note G = zk_GetACL_props [OF get]
  have world_acl: "WorldACL PermAll = [?open]"
    by (simp add: WorldACL_def PermAll_def)
  have created: "journal (snd (createDataNode v ?P payload)) =
                   journal v @ [CreateCall ?P payload 0 [?open]]" for v
    using createDataNode_props [of v ?P payload "fst (createDataNode v ?P payload)"
                                   "snd (createDataNode v ?P payload)"]
    by (simp add: world_acl)
  have dirnode: "nodes w2 ?D = nodes w ?D"
    using D G zk_path_neq_dir [of zkChroot name] by (auto split: if_splits)
  have jr: "journal w2 = journal w @ [DeleteCall ?P 0, GetACLCall ?D]"
    using D G by simp
  have refused: "?run = (Some (UnableToDeletePath ?P e), w1)
          \<and> journal w1 = journal w @ [DeleteCall ?P 0] \<and> nodes w1 = nodes w"
    if "derr = Some e" "e \<noteq> ErrNoNode" for e
    using that del D by (simp add: writeToZookeeper_def Let_def)
  have wtz: "?run =
               (case ensureDirectory w1 ?D of
                  (Some err, w2) \<Rightarrow> (Some err, w2)
                | (None, w2) \<Rightarrow> createDataNode w2 ?P payload)"
    if "derr = None \<or> derr = Some ErrNoNode"
    using del that by (auto simp: writeToZookeeper_def Let_def)
  have exists: "if ?open \<in> set acls
             then ?run = createDataNode w2 ?P payload
                \<and> journal (snd ?run) =
                    journal w @ [DeleteCall ?P 0, GetACLCall ?D, CreateCall ?P payload 0 [?open]]
             else ?run = (Some (WrongACL ?D acls), w2)
                \<and> nodes w2 ?D = nodes w ?D
                \<and> journal w2 = journal w @ [DeleteCall ?P 0, GetACLCall ?D]"
    if "derr = None \<or> derr = Some ErrNoNode" "r = Inr acls" for acls
    using get dirnode jr that(2)
    by (simp add: wtz [OF that(1)] ensureDirectory_def waclExists_iff wacl_eq created)
  have absent: "journal w3 = journal w @ [DeleteCall ?P 0, GetACLCall ?D,
                                            CreateCall ?D [] 0 [?open]]
               \<and> (if cerr = None \<or> cerr = Some ErrNodeExists
                    then ?run = createDataNode w3 ?P payload
                       \<and> journal (snd ?run) = journal w3 @ [CreateCall ?P payload 0 [?open]]
                    else \<exists>e. cerr = Some e \<and> ?run = (Some (UnableToCreateNode ?D e), w3))"
    if p: "derr = None \<or> derr = Some ErrNoNode" and r: "r = Inl ErrNoNode"
      and cre: "zk_Create w2 ?D [] 0 [?open] = (cerr, w3)" for cerr w3
  proof -
    from zk_Create_props [OF cre] jr
    have j3: "journal w3 = journal w @ [DeleteCall ?P 0, GetACLCall ?D,
                                          CreateCall ?D [] 0 [?open]]"
      by simp
    have "if cerr = None \<or> cerr = Some ErrNodeExists
                    then ?run = createDataNode w3 ?P payload
                       \<and> journal (snd ?run) = journal w3 @ [CreateCall ?P payload 0 [?open]]
                    else \<exists>e. cerr = Some e \<and> ?run = (Some (UnableToCreateNode ?D e), w3)"
      using get r cre
      by (auto simp: wtz [OF p] ensureDirectory_def world_acl created)
    with j3 show ?thesis by simp
  qed
  have other: "?run = (Some (UnableToGetNodeACL ?D err), w2)
            \<and> nodes w2 ?D = nodes w ?D
            \<and> journal w2 = journal w @ [DeleteCall ?P 0, GetACLCall ?D]"
    if "derr = None \<or> derr = Some ErrNoNode" "r = Inl err" "err \<noteq> ErrNoNode" for err
    using get dirnode jr that(2,3)
    by (simp add: wtz [OF that(1)] ensureDirectory_def)
  show ?thesis
    using refused exists absent other by (intro conjI impI allI) blast+
qed

theorem publish_of_a_node_step_by_step_witness:
  "fst (zk_Delete racing_store ''/topicmappr/partitionmeta'' 0) = Some ErrNoNode
   \<and> fst (zk_GetACL (snd (zk_Delete racing_store ''/topicmappr/partitionmeta'' 0)) ''/topicmappr'')
       = Inl ErrNoNode
   \<and> writeToZookeeper [] racing_store ''partitionmeta'' ''new partitions'' =
       createDataNode
         (racing_store\<lparr>faults := [],
            journal := [DeleteCall ''/topicmappr/partitionmeta'' 0, GetACLCall ''/topicmappr'',
                        CreateCall ''/topicmappr'' [] 0
                          [\<lparr>Perms = 0x1f, Scheme = ''world'', ID = ''anyone''\<rparr>]]\<rparr>)
         ''/topicmappr/partitionmeta'' ''new partitions''
   \<and> fst (writeToZookeeper [] racing_store ''partitionmeta'' ''new partitions'') = None
   \<and> fst (zk_Delete stale_store ''/topicmappr/partitionmeta'' 0) = Some ErrBadVersion
   \<and> writeToZookeeper [] stale_store ''partitionmeta'' ''new partitions'' =
       (Some (UnableToDeletePath ''/topicmappr/partitionmeta'' ErrBadVersion),
        stale_store\<lparr>journal := [DeleteCall ''/topicmappr/partitionmeta'' 0]\<rparr>)"
proof -
  have step: "writeToZookeeper [] racing_store ''partitionmeta'' ''new partitions'' =
       createDataNode
         (racing_store\<lparr>faults := [],
            journal := [DeleteCall ''/topicmappr/partitionmeta'' 0, GetACLCall ''/topicmappr'',
                        CreateCall ''/topicmappr'' [] 0
                          [\<lparr>Perms = 0x1f, Scheme = ''world'', ID = ''anyone''\<rparr>]]\<rparr>)
         ''/topicmappr/partitionmeta'' ''new partitions''"
    using publish_of_a_node_step_by_step
    [of racing_store "[]" "''partitionmeta''" "Some ErrNoNode"
        "racing_store\<lparr>faults := [Some ErrNoNode],
           journal := [DeleteCall ''/topicmappr/partitionmeta'' 0]\<rparr>"
        "Inl ErrNoNode"
        "racing_store\<lparr>faults := [],
           journal := [DeleteCall ''/topicmappr/partitionmeta'' 0, GetACLCall ''/topicmappr'']\<rparr>"
        "''new partitions''"]
    racing_steps
    by (simp add: zk_path_def zk_dir_def root_def)
  have refused: "writeToZookeeper [] stale_store ''partitionmeta'' ''new partitions'' =
       (Some (UnableToDeletePath ''/topicmappr/partitionmeta'' ErrBadVersion),
        stale_store\<lparr>journal := [DeleteCall ''/topicmappr/partitionmeta'' 0]\<rparr>)"
    using publish_of_a_node_step_by_step
    [of stale_store "[]" "''partitionmeta''" "Some ErrBadVersion"
        "stale_store\<lparr>journal := [DeleteCall ''/topicmappr/partitionmeta'' 0]\<rparr>"
        "fst (zk_GetACL (stale_store\<lparr>journal := [DeleteCall ''/topicmappr/partitionmeta'' 0]\<rparr>)
               ''/topicmappr'')"
        "snd (zk_GetACL (stale_store\<lparr>journal := [DeleteCall ''/topicmappr/partitionmeta'' 0]\<rparr>)
               ''/topicmappr'')"
        "''new partitions''"]
    stale_delete
    by (simp add: zk_path_def zk_dir_def root_def)
  show ?thesis
    using step [symmetric] refused by (simp add: racing_steps racing_write stale_delete)
qed

text \<open>
  Claim C9.  In dry-run mode \<open>processData\<close> sends no request to the store but the final
  close: the nodes and the fault script are as before, and the journal grows by the close
  alone.  When both maps serialise it returns no error and prints the report.  Under the
  contracts of \<^verbatim>\<open>range\<close> and \<^verbatim>\<open>sort.Slice\<close>, the partition numbers printed
  for a topic are in ascending order and are exactly the numbers \<^verbatim>\<open>strconv.Atoi\<close>
  reads from the partition keys of that topic; and for any permutation of the samples the
  map was built from, whatever order \<^verbatim>\<open>range\<close> takes and whichever sort is used,
  the partition numbers printed for the topic are the same list.
\<close>

theorem dry_run_touches_no_store_and_lists_partitions_in_order:
  "nodes (snd (processData env True zkChroot w brokerMetrics partitionMapping)) = nodes w
   \<and> faults (snd (processData env True zkChroot w brokerMetrics partitionMapping)) = faults w
   \<and> journal (snd (processData env True zkChroot w brokerMetrics partitionMapping)) =
       journal w @ [CloseCall]
   \<and> (\<forall>d1 d2. json_Marshal_partitions env partitionMapping = Inr d1 \<and>
               json_Marshal_brokers env brokerMetrics = Inr d2 \<longrightarrow>
         fst (processData env True zkChroot w brokerMetrics partitionMapping) = None \<and>
         log (snd (processData env True zkChroot w brokerMetrics partitionMapping)) =
           log w @ Println ''partition mapping'' #
             concat (map (dry_run_topic env) (range_topics env partitionMapping)) @
             Println ''fetched metrics'' #
             map (\<lambda>(brokerID, obj). LogBroker brokerID ''storage free''
                    (humanize_Bytes env (to_uint64 env (StorageFree obj))))
                 (range_brokers env brokerMetrics))
   \<and> (dry_run_contract env partitionMapping \<longrightarrow>
        (\<forall>tm\<in>set (range_topics env partitionMapping).
            sorted (printed_partitions (dry_run_topic env tm))
          \<and> mset (printed_partitions (dry_run_topic env tm)) =
              image_mset (strconv_Atoi env) (mset_set (dom (snd tm))))
      \<and> (\<forall>env' ss ss' tm tm'.
            getPartitionSizes (Inr (Vector ss)) = Inr partitionMapping \<and>
            mset ss' = mset ss \<and>
            dry_run_contract env' (fold partitionStep ss' Map.empty) \<and>
            strconv_Atoi env' = strconv_Atoi env \<and>
            tm \<in> set (range_topics env partitionMapping) \<and>
            tm' \<in> set (range_topics env' (fold partitionStep ss' Map.empty)) \<and>
            fst tm' = fst tm \<longrightarrow>
              printed_partitions (dry_run_topic env' tm') =
              printed_partitions (dry_run_topic env tm)))"
proof -
  let ?run = "processData env True zkChroot w brokerMetrics partitionMapping"
  have store: "nodes (snd ?run) = nodes w \<and> faults (snd ?run) = faults w
             \<and> journal (snd ?run) = journal w @ [CloseCall]"
    by (simp add: processData_def zk_Close_def split: sum.splits)
  have report: "\<forall>d1 d2. json_Marshal_partitions env partitionMapping = Inr d1 \<and>
               json_Marshal_brokers env brokerMetrics = Inr d2 \<longrightarrow>
         fst ?run = None \<and>
         log (snd ?run) =
           log w @ Println ''partition mapping'' #
             concat (map (dry_run_topic env) (range_topics env partitionMapping)) @
             Println ''fetched metrics'' #
             map (\<lambda>(brokerID, obj). LogBroker brokerID ''storage free''
                    (humanize_Bytes env (to_uint64 env (StorageFree obj))))
                 (range_brokers env brokerMetrics)"
    by (simp add: processData_def zk_Close_def dry_run_log_def)
  have listing: "sorted (printed_partitions (dry_run_topic e tm))
          \<and> mset (printed_partitions (dry_run_topic e tm)) =
              image_mset (strconv_Atoi e) (mset_set (dom (snd tm)))"
    if "dry_run_contract e pm" "tm \<in> set (range_topics e pm)" for e :: "'a env" and pm tm
  proof -
    from that have "sort_ok (sort_Slice e)" "range_ok (snd tm) (range_partitions e (snd tm))"
      by (auto simp: dry_run_contract_def)
    then show ?thesis
      unfolding printed_partitions_topic by (rule dry_run_entries_partitions)
  qed
  have perm: "printed_partitions (dry_run_topic env' tm') =
              printed_partitions (dry_run_topic env tm)"
    if c: "dry_run_contract env partitionMapping"
      and run: "getPartitionSizes (Inr (Vector ss)) = Inr partitionMapping"
      and p: "mset ss' = mset ss"
      and c': "dry_run_contract env' (fold partitionStep ss' Map.empty)"
      and atoi: "strconv_Atoi env' = strconv_Atoi env"
      and tm: "tm \<in> set (range_topics env partitionMapping)"
      and tm': "tm' \<in> set (range_topics env' (fold partitionStep ss' Map.empty))"
      and same: "fst tm' = fst tm"
    for env' :: "'a env" and ss ss' tm tm'
  proof -
    from run have pm: "partitionMapping = fold partitionStep ss Map.empty"
      by (simp add: getPartitionSizes_def)
    from c tm have "partitionMapping (fst tm) = Some (snd tm)"
      by (intro range_ok_member [of _ "range_topics env partitionMapping"])
         (simp_all add: dry_run_contract_def)
    then have m: "fold partitionStep ss Map.empty (fst tm) = Some (snd tm)"
      by (simp add: pm)
    from c' tm' have "fold partitionStep ss' Map.empty (fst tm') = Some (snd tm')"
      by (intro range_ok_member [of _ "range_topics env' (fold partitionStep ss' Map.empty)"])
         (simp_all add: dry_run_contract_def)
    then have m': "fold partitionStep ss' Map.empty (fst tm) = Some (snd tm')"
      by (simp add: same)
    have keys: "dom (snd tm') = dom (snd tm)"
      using p m m' by (rule permuted_samples_same_keys)
    from listing [OF c tm] listing [OF c' tm'] show ?thesis
      by (intro sorted_mset_unique) (simp_all add: keys atoi)
  qed
  from store report listing perm show ?thesis
    by (intro conjI impI allI ballI) (blast | simp)+
qed

theorem dry_run_touches_no_store_and_lists_partitions_in_order_witness:
  "dry_run_contract example_env [''t1'' \<mapsto> example_partitions]
   \<and> range_partitions example_env example_partitions =
       [(''10'', \<lparr>partitionSizeValue.Size = 300\<rparr>), (''2'', \<lparr>partitionSizeValue.Size = 200\<rparr>),
        (''1'', \<lparr>partitionSizeValue.Size = 100\<rparr>)]
   \<and> printed_partitions (dry_run_topic example_env (''t1'', example_partitions)) = [1, 2, 10]
   \<and> nodes (snd (processData example_env True [] restricted_store Map.empty
              [''t1'' \<mapsto> example_partitions])) = nodes restricted_store
   \<and> journal (snd (processData example_env True [] restricted_store Map.empty
              [''t1'' \<mapsto> example_partitions])) = [CloseCall]"
  using dry_run_touches_no_store_and_lists_partitions_in_order
    [of example_env "[]" restricted_store Map.empty "[''t1'' \<mapsto> example_partitions]"]
    example_contract
  by (simp add: printed_partitions_topic example_entries)
     (simp add: example_env_def restricted_store_def)

end
